theory Spec2Isabelle
  imports Complex_Main "HOL-Library.Sublist"
begin

section \<open>JavaScript numbers\<close>

text \<open>
  Every \<^verbatim>\<open>number\<close> of the TypeScript source is a value of \<open>jsnum\<close>: a finite value,
  one of the two infinities, or \<open>NaN\<close>. The special values follow IEEE 754 as
  JavaScript does (\<open>x / 0\<close> is an infinity or \<open>NaN\<close>, every comparison with \<open>NaN\<close> is
  false, \<open>Math.sqrt\<close> and \<open>Math.log\<close> of a negative number are \<open>NaN\<close>). Finite
  values are real numbers with exact arithmetic: rounding to 53 bits, overflow to an
  infinity and the sign of zero (zero is \<open>+0\<close>) are not modelled.
\<close>

datatype jsnum = NaN | NInf | Fin real | PInf

fun inf_of_sign :: "real \<Rightarrow> jsnum" where
  "inf_of_sign s = (if s = 0 then NaN else if 0 < s then PInf else NInf)"

instantiation jsnum :: "{uminus, plus, minus, times, inverse, ord}"
begin

fun uminus_jsnum :: "jsnum \<Rightarrow> jsnum" where
  "uminus_jsnum NaN = NaN"
| "uminus_jsnum NInf = PInf"
| "uminus_jsnum (Fin a) = Fin (- a)"
| "uminus_jsnum PInf = NInf"

fun plus_jsnum :: "jsnum \<Rightarrow> jsnum \<Rightarrow> jsnum" where
  "plus_jsnum (Fin a) (Fin b) = Fin (a + b)"
| "plus_jsnum NaN _ = NaN"
| "plus_jsnum _ NaN = NaN"
| "plus_jsnum PInf NInf = NaN"
| "plus_jsnum NInf PInf = NaN"
| "plus_jsnum PInf _ = PInf"
| "plus_jsnum _ PInf = PInf"
| "plus_jsnum NInf _ = NInf"
| "plus_jsnum _ NInf = NInf"

fun minus_jsnum :: "jsnum \<Rightarrow> jsnum \<Rightarrow> jsnum" where
  "minus_jsnum (Fin a) (Fin b) = Fin (a - b)"
| "minus_jsnum NaN _ = NaN"
| "minus_jsnum _ NaN = NaN"
| "minus_jsnum PInf PInf = NaN"
| "minus_jsnum NInf NInf = NaN"
| "minus_jsnum PInf _ = PInf"
| "minus_jsnum _ NInf = PInf"
| "minus_jsnum NInf _ = NInf"
| "minus_jsnum _ PInf = NInf"

fun times_jsnum :: "jsnum \<Rightarrow> jsnum \<Rightarrow> jsnum" where
  "times_jsnum (Fin a) (Fin b) = Fin (a * b)"
| "times_jsnum NaN _ = NaN"
| "times_jsnum _ NaN = NaN"
| "times_jsnum (Fin a) PInf = inf_of_sign a"
| "times_jsnum (Fin a) NInf = inf_of_sign (- a)"
| "times_jsnum PInf (Fin b) = inf_of_sign b"
| "times_jsnum NInf (Fin b) = inf_of_sign (- b)"
| "times_jsnum PInf PInf = PInf"
| "times_jsnum PInf NInf = NInf"
| "times_jsnum NInf PInf = NInf"
| "times_jsnum NInf NInf = PInf"

fun divide_jsnum :: "jsnum \<Rightarrow> jsnum \<Rightarrow> jsnum" where
  "divide_jsnum (Fin a) (Fin b) = (if b = 0 then inf_of_sign a else Fin (a / b))"
| "divide_jsnum NaN _ = NaN"
| "divide_jsnum _ NaN = NaN"
| "divide_jsnum (Fin a) PInf = Fin 0"
| "divide_jsnum (Fin a) NInf = Fin 0"
| "divide_jsnum PInf (Fin b) = (if 0 \<le> b then PInf else NInf)"
| "divide_jsnum NInf (Fin b) = (if 0 \<le> b then NInf else PInf)"
| "divide_jsnum PInf PInf = NaN"
| "divide_jsnum PInf NInf = NaN"
| "divide_jsnum NInf PInf = NaN"
| "divide_jsnum NInf NInf = NaN"

definition inverse_jsnum :: "jsnum \<Rightarrow> jsnum" where
  "inverse_jsnum x = divide (Fin 1) x"

fun less_jsnum :: "jsnum \<Rightarrow> jsnum \<Rightarrow> bool" where
  "less_jsnum (Fin a) (Fin b) = (a < b)"
| "less_jsnum NaN _ = False"
| "less_jsnum _ NaN = False"
| "less_jsnum PInf _ = False"
| "less_jsnum _ NInf = False"
| "less_jsnum NInf _ = True"
| "less_jsnum _ PInf = True"

fun less_eq_jsnum :: "jsnum \<Rightarrow> jsnum \<Rightarrow> bool" where
  "less_eq_jsnum (Fin a) (Fin b) = (a \<le> b)"
| "less_eq_jsnum NaN _ = False"
| "less_eq_jsnum _ NaN = False"
| "less_eq_jsnum NInf _ = True"
| "less_eq_jsnum _ PInf = True"
| "less_eq_jsnum PInf _ = False"
| "less_eq_jsnum _ NInf = False"

instance ..

end

text \<open>\<^verbatim>\<open>Math.min\<close> and \<^verbatim>\<open>Math.max\<close> of two numbers: \<open>NaN\<close> if either is.\<close>

fun Math_min :: "jsnum \<Rightarrow> jsnum \<Rightarrow> jsnum" where
  "Math_min NaN _ = NaN"
| "Math_min _ NaN = NaN"
| "Math_min a b = (if a \<le> b then a else b)"

fun Math_max :: "jsnum \<Rightarrow> jsnum \<Rightarrow> jsnum" where
  "Math_max NaN _ = NaN"
| "Math_max _ NaN = NaN"
| "Math_max a b = (if a \<le> b then b else a)"

fun Math_sqrt :: "jsnum \<Rightarrow> jsnum" where
  "Math_sqrt (Fin a) = (if a < 0 then NaN else Fin (sqrt a))"
| "Math_sqrt PInf = PInf"
| "Math_sqrt _ = NaN"

fun Math_log :: "jsnum \<Rightarrow> jsnum" where
  "Math_log (Fin a) = (if a < 0 then NaN else if a = 0 then NInf else Fin (ln a))"
| "Math_log PInf = PInf"
| "Math_log _ = NaN"

fun Math_floor :: "jsnum \<Rightarrow> jsnum" where
  "Math_floor (Fin a) = Fin (of_int \<lfloor>a\<rfloor>)"
| "Math_floor x = x"

fun Math_ceil :: "jsnum \<Rightarrow> jsnum" where
  "Math_ceil (Fin a) = Fin (of_int \<lceil>a\<rceil>)"
| "Math_ceil x = x"

text \<open>\<^verbatim>\<open>Math.round\<close> rounds to the nearest integer, a half towards \<open>+\<infinity>\<close>.\<close>

fun Math_round :: "jsnum \<Rightarrow> jsnum" where
  "Math_round (Fin a) = Fin (of_int \<lfloor>a + 1 / 2\<rfloor>)"
| "Math_round x = x"

text \<open>\<^verbatim>\<open>Math.pow(b, k)\<close> for a positive base and an integer exponent.\<close>

definition Math_pow :: "real \<Rightarrow> int \<Rightarrow> jsnum" where
  "Math_pow b k = Fin (b powi k)"

fun isFinite :: "jsnum \<Rightarrow> bool" where
  "isFinite (Fin _) = True"
| "isFinite _ = False"

fun isNaN :: "jsnum \<Rightarrow> bool" where
  "isNaN NaN = True"
| "isNaN _ = False"

text \<open>\<^verbatim>\<open>!x\<close> on a number: true for \<open>0\<close> and \<open>NaN\<close>.\<close>

fun falsy :: "jsnum \<Rightarrow> bool" where
  "falsy NaN = True"
| "falsy (Fin a) = (a = 0)"
| "falsy _ = False"

definition Number_MAX_VALUE :: jsnum where
  "Number_MAX_VALUE = Fin ((2 - 1 / 2 ^ 52) * 2 ^ 1023)"


section \<open>Strings\<close>

text \<open>\<^verbatim>\<open>toUpperCase\<close> on ASCII letters and \<^verbatim>\<open>String.prototype.includes\<close>.\<close>

definition toUpperCase :: "string \<Rightarrow> string" where
  "toUpperCase s =
     map (\<lambda>c. case map_of (zip ''abcdefghijklmnopqrstuvwxyz''
                                  ''ABCDEFGHIJKLMNOPQRSTUVWXYZ'') c of
                Some u \<Rightarrow> u | None \<Rightarrow> c) s"

fun includes_str :: "string \<Rightarrow> string \<Rightarrow> bool" where
  "includes_str [] sub = (sub = [])"
| "includes_str (c # cs) sub = (prefix sub (c # cs) \<or> includes_str cs sub)"

section \<open>Data model (src/common/types.ts)\<close>

datatype GranularityType = Daily | Hourly

text \<open>
  \<open>PositionType\<close> is the string \<^verbatim>\<open>'full-range'\<close> or a number followed by \<^verbatim>\<open>%\<close>.
  The class reads a percentage type only through
  \<^verbatim>\<open>parseInt(positionType.replace('%', ''))\<close>; \<open>Percent n\<close> stands for a string on
  which that expression evaluates to \<open>n\<close> (an integer, or \<open>NaN\<close>).
\<close>

datatype PositionType = FullRange | Percent jsnum

record PositionRange =
  tickLower :: jsnum
  tickUpper :: jsnum
  rangeWidth :: jsnum
  priceLower :: jsnum
  priceUpper :: jsnum

text \<open>
  \<^verbatim>\<open>PoolDayData | PoolHourData\<close>, restricted to the fields the class reads. All of them
  but the time stamps are strings, read through a library parser that the record holds
  the result of:
  \<^item> \<open>tick\<close>: \<^verbatim>\<open>parseInt(dataPoint.tick)\<close>;
  \<^item> \<open>token0Price\<close>, \<open>token1Price\<close>: \<^verbatim>\<open>parseFloat\<close> of the field;
  \<^item> \<open>low\<close>, \<open>high\<close>: \<open>None\<close> when the string is falsy (empty or absent), so that
    \<^verbatim>\<open>dataPoint.low || dataPoint.token0Price\<close> takes the price, else \<^verbatim>\<open>parseFloat\<close> of it;
  \<^item> \<open>feeGrowthGlobal0X128\<close>, \<open>feeGrowthGlobal1X128\<close>: \<^verbatim>\<open>BigInt\<close> of the field, \<open>None\<close>
    when \<^verbatim>\<open>BigInt\<close> throws (the string is not an integer literal);
  \<^item> \<open>date\<close> (day data) and \<open>periodStartUnix\<close> (hour data): \<open>None\<close> when the object
    is of the other variant and the property reads \<^verbatim>\<open>undefined\<close>.
\<close>

record DataPoint =
  tick :: jsnum
  token0Price :: jsnum
  token1Price :: jsnum
  low :: "jsnum option"
  high :: "jsnum option"
  feeGrowthGlobal0X128 :: "int option"
  feeGrowthGlobal1X128 :: "int option"
  date :: "jsnum option"
  periodStartUnix :: "jsnum option"

datatype JsError = SyntaxError

section \<open>The position (src/common/positions/liquid-unit.position.ts)\<close>

text \<open>An entry of \<^verbatim>\<open>positionResults\<close>.\<close>

record SubPosition =
  duration :: nat
  fees :: jsnum
  gasCost :: jsnum
  startingCapital :: jsnum

text \<open>
  The fields of \<^verbatim>\<open>LiquidUnitPosition\<close>. Counters that start at 0 and are only
  incremented are natural numbers, token decimals are integers, the fee-growth
  accumulators are \<^verbatim>\<open>bigint\<close>s, \<open>currentTimestamp\<close> is \<open>None\<close> when it holds
  \<^verbatim>\<open>undefined\<close>.
\<close>

record LiquidUnitPosition =
  initialAmount :: jsnum
  currentPositionCapital :: jsnum
  positionType :: PositionType
  positionRange :: PositionRange
  lpSharePercentage :: jsnum
  tickSpacing :: jsnum
  cumulativeFees :: jsnum
  dataPointsInRange :: nat
  totalDataPoints :: nat
  rebalanceCount :: nat
  totalGasCosts :: jsnum
  lastRebalanceDataPoint :: nat
  currentWasRebalanced :: bool
  currentPositionDataPoints :: nat
  currentPositionFees :: jsnum
  currentTimestamp :: "jsnum option"
  positionResults :: "SubPosition list"
  currentToken0Price :: jsnum
  currentToken1Price :: jsnum
  initialToken0Price :: jsnum
  initialToken1Price :: jsnum
  currentBtcPrice :: jsnum
  totalPoolLiquidity :: jsnum
  poolTVL :: jsnum
  token0Decimals :: int
  token1Decimals :: int
  token0Symbol :: string
  token1Symbol :: string
  currentTick :: jsnum
  usdcAmount :: jsnum
  btcAmount :: jsnum
  liquidityAmount :: jsnum
  maxPortfolioValue :: jsnum
  minPortfolioValue :: jsnum
  granularityType :: GranularityType
  useCompoundingAPR :: bool
  assetComposition :: string
  previousFeeGrowth0X128 :: int
  previousFeeGrowth1X128 :: int


subsection \<open>Tick range and allocation\<close>

definition getTickFromPrice :: "LiquidUnitPosition \<Rightarrow> jsnum \<Rightarrow> jsnum" where
  "getTickFromPrice p price =
     (let invertedPrice = Fin 1 / price;
          valToLog = invertedPrice * Math_pow 10 (token1Decimals p - token0Decimals p);
          tickIDXRaw = Math_log valToLog / Math_log (Fin (10001 / 10000))
      in Math_round tickIDXRaw)"

text \<open>The parameter \<open>tick0\<close> is \<^verbatim>\<open>currentTick\<close>, which the source does not use.\<close>

definition getPositionTickRange ::
  "LiquidUnitPosition \<Rightarrow> jsnum \<Rightarrow> PositionType \<Rightarrow> jsnum \<Rightarrow> PositionRange" where
  "getPositionTickRange p tick0 ptype spacing =
     (case ptype of
        FullRange \<Rightarrow>
          \<lparr>tickLower = Fin (- 887272), tickUpper = Fin 887272, rangeWidth = PInf,
           priceLower = Fin 0, priceUpper = PInf\<rparr>
      | Percent n \<Rightarrow>
          (let rangePercent = n / Fin 100;
               currentPrice = currentToken0Price p;
               pLower = currentPrice * (Fin 1 - rangePercent / Fin 2);
               pUpper = currentPrice * (Fin 1 + rangePercent / Fin 2);
               rawTickLower = getTickFromPrice p pLower;
               rawTickUpper = getTickFromPrice p pUpper;
               tLower = Math_min (Math_floor (rawTickLower / spacing) * spacing)
                                 (Math_floor (rawTickUpper / spacing) * spacing);
               tUpper = Math_max (Math_ceil (rawTickLower / spacing) * spacing)
                                 (Math_ceil (rawTickUpper / spacing) * spacing)
           in \<lparr>tickLower = tLower, tickUpper = tUpper, rangeWidth = rangePercent,
               priceLower = pLower, priceUpper = pUpper\<rparr>))"

text \<open>Returns \<^verbatim>\<open>[amount0, amount1]\<close>.\<close>

definition tokensForStrategy ::
  "jsnum \<Rightarrow> jsnum \<Rightarrow> jsnum \<Rightarrow> jsnum \<Rightarrow> int \<Rightarrow> jsnum \<times> jsnum" where
  "tokensForStrategy minRange maxRange investment price decimal =
     (let sqrtPrice = Math_sqrt (price * Math_pow 10 decimal);
          sqrtLow = Math_sqrt (minRange * Math_pow 10 decimal);
          sqrtHigh = Math_sqrt (maxRange * Math_pow 10 decimal)
      in if sqrtPrice > sqrtLow \<and> sqrtPrice < sqrtHigh then
           (let delta = investment /
                  (sqrtPrice - sqrtLow +
                   (Fin 1 / sqrtPrice - Fin 1 / sqrtHigh) * (price * Math_pow 10 decimal));
                amount0 = delta * (Fin 1 / sqrtPrice - Fin 1 / sqrtHigh) * Math_pow 10 decimal;
                amount1 = delta * (sqrtPrice - sqrtLow)
            in (amount0, amount1))
         else if sqrtPrice < sqrtLow then
           (let delta = investment / ((Fin 1 / sqrtLow - Fin 1 / sqrtHigh) * price);
                amount0 = delta * (Fin 1 / sqrtLow - Fin 1 / sqrtHigh);
                amount1 = Fin 0
            in (amount0, amount1))
         else
           (let delta = investment / (sqrtHigh - sqrtLow);
                amount0 = Fin 0;
                amount1 = delta * (sqrtHigh - sqrtLow)
            in (amount0, amount1)))"

definition liquidityForStrategy ::
  "LiquidUnitPosition \<Rightarrow> jsnum \<Rightarrow> jsnum \<Rightarrow> jsnum \<Rightarrow> jsnum \<Rightarrow> jsnum \<Rightarrow> jsnum" where
  "liquidityForStrategy p price lo hi tokens0 tokens1 =
     (let decimal = token0Decimals p - token1Decimals p;
          lowHigh0 = Math_sqrt (lo * Math_pow 10 decimal) * Math_pow 2 96;
          lowHigh1 = Math_sqrt (hi * Math_pow 10 decimal) * Math_pow 2 96;
          sPrice = Math_sqrt (price * Math_pow 10 decimal) * Math_pow 2 96;
          sLow = Math_min lowHigh0 lowHigh1;
          sHigh = Math_max lowHigh0 lowHigh1
      in if sPrice \<le> sLow then
           tokens0 /
             (Math_pow 2 96 * (sHigh - sLow) / sHigh / sLow / Math_pow 10 (token0Decimals p))
         else if sPrice \<le> sHigh \<and> sPrice > sLow then
           (let liq0 = tokens0 /
                  (Math_pow 2 96 * (sHigh - sPrice) / sHigh / sPrice /
                   Math_pow 10 (token1Decimals p));
                liq1 = tokens1 /
                  ((sPrice - sLow) / Math_pow 2 96 / Math_pow 10 (token1Decimals p))
            in Math_min liq1 liq0)
         else
           tokens1 / ((sHigh - sLow) / Math_pow 2 96 / Math_pow 10 (token0Decimals p)))"

text \<open>
  The destructuring assignment of the source stores \<^verbatim>\<open>amount0\<close> in \<open>btcAmount\<close> and
  \<^verbatim>\<open>amount1\<close> in \<open>usdcAmount\<close>.
\<close>

definition calculateTokensAndLiquidity ::
  "LiquidUnitPosition \<Rightarrow> jsnum \<Rightarrow> jsnum \<Rightarrow> LiquidUnitPosition" where
  "calculateTokensAndLiquidity p investment price =
     (let p =
        (if positionType p = FullRange then
           (let usdInToken1 = investment / Fin 2;
                usdInToken0 = investment / Fin 2;
                p = p\<lparr>usdcAmount := usdInToken0\<rparr>;
                p = p\<lparr>btcAmount := usdInToken1 / price\<rparr>;
                veryLowPrice = price * Fin (1 / 100);
                veryHighPrice = price * Fin 100
            in p\<lparr>liquidityAmount :=
                   liquidityForStrategy p price veryLowPrice veryHighPrice
                     (btcAmount p) (usdcAmount p)\<rparr>)
         else
           (let decimal = token0Decimals p - token1Decimals p;
                (amount0, amount1) =
                   tokensForStrategy (priceLower (positionRange p))
                     (priceUpper (positionRange p)) investment price decimal;
                p = p\<lparr>btcAmount := amount0, usdcAmount := amount1\<rparr>
            in p\<lparr>liquidityAmount :=
                   liquidityForStrategy p price (priceLower (positionRange p))
                     (priceUpper (positionRange p)) (btcAmount p) (usdcAmount p)\<rparr>))
      in p\<lparr>lpSharePercentage := liquidityAmount p / totalPoolLiquidity p\<rparr>)"

subsection \<open>Construction\<close>

text \<open>
  The choice of \<open>currentBtcPrice\<close>, which the source writes out twice (in the
  constructor and in \<open>update\<close>): the price of the first token whose upper-cased symbol
  contains \<^verbatim>\<open>BTC\<close>, the token0 price if neither does.
\<close>

definition btcPriceOf :: "string \<Rightarrow> string \<Rightarrow> jsnum \<Rightarrow> jsnum \<Rightarrow> jsnum" where
  "btcPriceOf sym0 sym1 price0 price1 =
     (if includes_str (toUpperCase sym0) ''BTC'' then price0
      else if includes_str (toUpperCase sym1) ''BTC'' then price1
      else price0)"

text \<open>
  The constructor with its fourteen parameters in the order of the source. A field
  the source has not assigned when it calls \<open>getPositionTickRange\<close> (\<open>positionRange\<close>,
  \<open>lpSharePercentage\<close>) holds \<open>NaN\<close> until then; neither is read before it is assigned.
\<close>

definition constructor ::
  "jsnum \<Rightarrow> PositionType \<Rightarrow> jsnum \<Rightarrow> jsnum \<Rightarrow> jsnum \<Rightarrow> jsnum \<Rightarrow> jsnum \<Rightarrow> string \<Rightarrow> string \<Rightarrow>
   GranularityType \<Rightarrow> jsnum \<Rightarrow> int \<Rightarrow> int \<Rightarrow> bool \<Rightarrow> LiquidUnitPosition" where
  "constructor initialAmount0 ptype initialTick initialTvl initialPrice0 initialPrice1
     poolLiquidity sym0 sym1 granularity spacing decimals0 decimals1 compounding =
     (let p = \<lparr>initialAmount = initialAmount0,
                currentPositionCapital = initialAmount0,
                positionType = ptype,
                positionRange = \<lparr>tickLower = NaN, tickUpper = NaN, rangeWidth = NaN,
                                  priceLower = NaN, priceUpper = NaN\<rparr>,
                lpSharePercentage = NaN,
                tickSpacing = spacing,
                cumulativeFees = Fin 0,
                dataPointsInRange = 0,
                totalDataPoints = 0,
                rebalanceCount = 0,
                totalGasCosts = Fin 0,
                lastRebalanceDataPoint = 0,
                currentWasRebalanced = False,
                currentPositionDataPoints = 0,
                currentPositionFees = Fin 0,
                currentTimestamp = Some (Fin 0),
                positionResults = [],
                currentToken0Price = initialPrice0,
                currentToken1Price = initialPrice1,
                initialToken0Price = initialPrice0,
                initialToken1Price = initialPrice1,
                currentBtcPrice = btcPriceOf sym0 sym1 initialPrice0 initialPrice1,
                totalPoolLiquidity = poolLiquidity,
                poolTVL = initialTvl,
                token0Decimals = decimals0,
                token1Decimals = decimals1,
                token0Symbol = sym0,
                token1Symbol = sym1,
                currentTick = initialTick,
                usdcAmount = Fin 0,
                btcAmount = Fin 0,
                liquidityAmount = Fin 0,
                maxPortfolioValue = Fin 0,
                minPortfolioValue = Number_MAX_VALUE,
                granularityType = granularity,
                useCompoundingAPR = compounding,
                assetComposition = sym0 @ '','' @ sym1,
                previousFeeGrowth0X128 = 0,
                previousFeeGrowth1X128 = 0\<rparr>;
          p = p\<lparr>positionRange := getPositionTickRange p initialTick ptype spacing\<rparr>
      in calculateTokensAndLiquidity p initialAmount0 initialPrice0)"


subsection \<open>Range test and position value\<close>

definition isPositionActive :: "LiquidUnitPosition \<Rightarrow> jsnum \<Rightarrow> bool" where
  "isPositionActive p tick0 =
     (tick0 \<ge> tickLower (positionRange p) \<and> tick0 \<le> tickUpper (positionRange p))"

definition isOutOfRange :: "LiquidUnitPosition \<Rightarrow> jsnum \<Rightarrow> bool" where
  "isOutOfRange p tick0 = (\<not> isPositionActive p tick0)"

definition getCurrentPositionValue :: "LiquidUnitPosition \<Rightarrow> jsnum" where
  "getCurrentPositionValue p =
     (let usdcValueInUsd = usdcAmount p;
          btcValueInUsd = btcAmount p * currentBtcPrice p;
          totalValue = usdcValueInUsd + btcValueInUsd
      in totalValue)"

subsection \<open>Fee accrual\<close>

definition calculateActiveLiquidityForCandle :: "LiquidUnitPosition \<Rightarrow> DataPoint \<Rightarrow> jsnum" where
  "calculateActiveLiquidityForCandle p dataPoint =
     (if positionType p = FullRange then Fin 100
      else
        (let lowP = (case low dataPoint of Some v \<Rightarrow> v | None \<Rightarrow> token0Price dataPoint);
             highP = (case high dataPoint of Some v \<Rightarrow> v | None \<Rightarrow> token0Price dataPoint)
         in if \<not> isFinite lowP \<or> \<not> isFinite highP \<or> lowP \<le> Fin 0 \<or> highP \<le> Fin 0 then Fin 0
            else
              (let lowTick = getTickFromPrice p lowP;
                   highTick = getTickFromPrice p highP;
                   minTick = tickLower (positionRange p);
                   maxTick = tickUpper (positionRange p);
                   divider = (if highTick - lowTick \<noteq> Fin 0 then highTick - lowTick else Fin 1);
                   ratioTrue =
                     (if highTick - lowTick \<noteq> Fin 0
                      then (Math_min maxTick highTick - Math_max minTick lowTick) / divider
                      else Fin 1);
                   ratio = (if highTick > minTick \<and> lowTick < maxTick
                            then ratioTrue * Fin 100 else Fin 0)
               in if isNaN ratio \<or> falsy ratio then Fin 0 else ratio)))"

text \<open>
  The only statements of the class that can throw are the two \<^verbatim>\<open>BigInt\<close> conversions;
  they come first, so a throw leaves the position as it was.
\<close>

definition calculateFeesUsingSimplifiedMethod ::
  "LiquidUnitPosition \<Rightarrow> DataPoint \<Rightarrow> jsnum \<Rightarrow> JsError + (jsnum \<times> LiquidUnitPosition)" where
  "calculateFeesUsingSimplifiedMethod p dataPoint activeLiquidityPercent =
     (case feeGrowthGlobal0X128 dataPoint of
        None \<Rightarrow> Inl SyntaxError
      | Some currentFeeGrowth0 \<Rightarrow>
     (case feeGrowthGlobal1X128 dataPoint of
        None \<Rightarrow> Inl SyntaxError
      | Some currentFeeGrowth1 \<Rightarrow>
         if totalDataPoints p = 1 then
           Inr (Fin 0, p\<lparr>previousFeeGrowth0X128 := currentFeeGrowth0,
                          previousFeeGrowth1X128 := currentFeeGrowth1\<rparr>)
         else
           (let fg0 = Fin (of_int (currentFeeGrowth0 - previousFeeGrowth0X128 p)) /
                        Math_pow 2 128 / Math_pow 10 (token0Decimals p);
                fg1 = Fin (of_int (currentFeeGrowth1 - previousFeeGrowth1X128 p)) /
                        Math_pow 2 128 / Math_pow 10 (token1Decimals p);
                baseFeeToken0 = (fg0 * liquidityAmount p * activeLiquidityPercent) / Fin 100;
                baseFeeToken1 = (fg1 * liquidityAmount p * activeLiquidityPercent) / Fin 100;
                feesUSD = baseFeeToken0 + baseFeeToken1 * currentToken0Price p
            in Inr (feesUSD, p\<lparr>previousFeeGrowth0X128 := currentFeeGrowth0,
                               previousFeeGrowth1X128 := currentFeeGrowth1\<rparr>))))"

text \<open>\<^verbatim>\<open>update\<close> returns the fee income of the step and the position after it.\<close>

definition update :: "LiquidUnitPosition \<Rightarrow> DataPoint \<Rightarrow> bool \<Rightarrow> jsnum \<times> LiquidUnitPosition" where
  "update p dataPoint wasRebalanced =
     (let p = p\<lparr>totalDataPoints := totalDataPoints p + 1\<rparr>;
          p = p\<lparr>currentPositionDataPoints := currentPositionDataPoints p + 1\<rparr>;
          p = p\<lparr>currentWasRebalanced := wasRebalanced\<rparr>;
          p = p\<lparr>currentTick := tick dataPoint\<rparr>;
          p = p\<lparr>currentToken0Price := token0Price dataPoint\<rparr>;
          p = p\<lparr>currentToken1Price := token1Price dataPoint\<rparr>;
          p = p\<lparr>currentBtcPrice :=
                 btcPriceOf (token0Symbol p) (token1Symbol p)
                   (currentToken0Price p) (currentToken1Price p)\<rparr>;
          p = p\<lparr>currentTimestamp :=
                 (if granularityType p = Daily then date dataPoint
                  else Some (case periodStartUnix dataPoint of
                               Some u \<Rightarrow> u * Fin 1000 | None \<Rightarrow> NaN))\<rparr>;
          isInRange = (\<not> isOutOfRange p (currentTick p) \<and> \<not> wasRebalanced);
          activeLiquidityPercent = calculateActiveLiquidityForCandle p dataPoint;
          (dataPointFees, p) =
             (if isInRange then
                (let p = p\<lparr>dataPointsInRange := dataPointsInRange p + 1\<rparr>
                 in case calculateFeesUsingSimplifiedMethod p dataPoint activeLiquidityPercent of
                      Inr (f, p') \<Rightarrow> (f, p')
                    | Inl error \<Rightarrow> (Fin 0, p))
              else (Fin 0, p));
          p = p\<lparr>cumulativeFees := cumulativeFees p + dataPointFees\<rparr>;
          p = p\<lparr>currentPositionFees := currentPositionFees p + dataPointFees\<rparr>;
          currentPositionValue = getCurrentPositionValue p;
          totalValue = currentPositionValue + cumulativeFees p;
          p = p\<lparr>maxPortfolioValue := Math_max (maxPortfolioValue p) totalValue\<rparr>;
          p = (if maxPortfolioValue p > initialAmount p
               then p\<lparr>minPortfolioValue := Math_min (minPortfolioValue p) totalValue\<rparr>
               else p)
      in (dataPointFees, p))"

subsection \<open>Rebalancing\<close>

definition rebalance ::
  "LiquidUnitPosition \<Rightarrow> jsnum \<Rightarrow> jsnum \<Rightarrow> jsnum \<Rightarrow> bool \<Rightarrow> LiquidUnitPosition" where
  "rebalance p tick0 currentTvl gas isClosing =
     (let p = (if currentPositionDataPoints p > 0
               then p\<lparr>positionResults := positionResults p @
                        [\<lparr>duration = currentPositionDataPoints p,
                          fees = currentPositionFees p,
                          gasCost = gas,
                          startingCapital = currentPositionCapital p\<rparr>]\<rparr>
               else p);
          p = p\<lparr>currentPositionCapital := currentPositionCapital p + currentPositionFees p\<rparr>;
          p = (if \<not> isClosing then
                 (let p = p\<lparr>initialToken0Price := currentToken0Price p\<rparr>;
                      p = p\<lparr>positionRange :=
                             getPositionTickRange p tick0 (positionType p) (tickSpacing p)\<rparr>;
                      p = calculateTokensAndLiquidity p (currentPositionCapital p)
                            (currentToken0Price p);
                      p = p\<lparr>totalGasCosts := totalGasCosts p + gas\<rparr>;
                      p = p\<lparr>rebalanceCount := rebalanceCount p + 1\<rparr>
                  in p\<lparr>lastRebalanceDataPoint := totalDataPoints p\<rparr>)
               else p);
          p = p\<lparr>currentPositionDataPoints := 0\<rparr>
      in p\<lparr>currentPositionFees := Fin 0\<rparr>)"

subsection \<open>Annualised returns and accessors\<close>

definition getRunningAPR :: "LiquidUnitPosition \<Rightarrow> jsnum" where
  "getRunningAPR p =
     (if totalDataPoints p = 0 then Fin 0
      else
        (let netFees = cumulativeFees p - totalGasCosts p
         in if granularityType p = Daily then
              (netFees / initialAmount p) * (Fin 365 / Fin (real (totalDataPoints p))) * Fin 100
            else
              (netFees / initialAmount p) * (Fin 8760 / Fin (real (totalDataPoints p))) * Fin 100))"

text \<open>
  The \<^verbatim>\<open>for\<close> loop of \<open>getWeightedPositionAPR\<close> over \<open>allPositions\<close>, with its two
  accumulators \<^verbatim>\<open>totalWeightedAPR\<close> and \<^verbatim>\<open>totalDataPoints\<close>.
\<close>

fun weightedLoop :: "GranularityType \<Rightarrow> SubPosition list \<Rightarrow> jsnum \<times> nat \<Rightarrow> jsnum \<times> nat" where
  "weightedLoop g [] acc = acc"
| "weightedLoop g (position # rest) (totalWeightedAPR, totalPoints) =
     (let netFees = fees position - gasCost position;
          netAPR =
            (if g = Daily then
               (netFees / startingCapital position) *
               (Fin 365 / Fin (real (duration position))) * Fin 100
             else
               (netFees / startingCapital position) *
               (Fin 8760 / Fin (real (duration position))) * Fin 100)
      in weightedLoop g rest
           (totalWeightedAPR + netAPR * Fin (real (duration position)),
            totalPoints + duration position))"

definition getWeightedPositionAPR :: "LiquidUnitPosition \<Rightarrow> jsnum" where
  "getWeightedPositionAPR p =
     (let allPositions = positionResults p;
          allPositions =
            (if currentPositionDataPoints p > 0
             then allPositions @
                    [\<lparr>duration = currentPositionDataPoints p,
                      fees = currentPositionFees p,
                      gasCost = Fin 0,
                      startingCapital = currentPositionCapital p - currentPositionFees p\<rparr>]
             else allPositions)
      in if length allPositions = 0 then Fin 0
         else
           (let (totalWeightedAPR, totalPoints) =
                  weightedLoop (granularityType p) allPositions (Fin 0, 0)
            in if totalPoints > 0 then totalWeightedAPR / Fin (real totalPoints) else Fin 0))"

definition getAPR :: "LiquidUnitPosition \<Rightarrow> jsnum" where
  "getAPR p =
     (if useCompoundingAPR p \<and> length (positionResults p) > 0
      then getWeightedPositionAPR p
      else getRunningAPR p)"

definition totalFeesEarned :: "LiquidUnitPosition \<Rightarrow> jsnum" where
  "totalFeesEarned p = cumulativeFees p"

definition netFeesEarned :: "LiquidUnitPosition \<Rightarrow> jsnum" where
  "netFeesEarned p = cumulativeFees p - totalGasCosts p"

definition gasCostsTotal :: "LiquidUnitPosition \<Rightarrow> jsnum" where
  "gasCostsTotal p = totalGasCosts p"

definition rebalanceCountTotal :: "LiquidUnitPosition \<Rightarrow> nat" where
  "rebalanceCountTotal p = rebalanceCount p"

definition completedPositions :: "LiquidUnitPosition \<Rightarrow> SubPosition list" where
  "completedPositions p = positionResults p"

subsection \<open>Order up to NaN\<close>


subsection \<open>The invariant of the data model\<close>



subsection \<open>Example inputs\<close>

text \<open>
  A full-range position on a pool whose two tokens have six decimals and trade at
  price 1, with 900 USD invested, and a day of pool data at price 1 with a given tick
  and given fee-growth accumulators.
\<close>

definition examplePosition :: LiquidUnitPosition where
  "examplePosition =
     constructor (Fin 900) FullRange (Fin 0) (Fin 1000000) (Fin 1) (Fin 1) (Fin 1000000)
       ''USDC'' ''cbBTC'' Daily (Fin 60) 6 6 True"

definition exampleDay :: "jsnum \<Rightarrow> int \<Rightarrow> int \<Rightarrow> DataPoint" where
  "exampleDay t g0 g1 =
     \<lparr>tick = t, token0Price = Fin 1, token1Price = Fin 1,
      low = Some (Fin 1), high = Some (Fin 1),
      feeGrowthGlobal0X128 = Some g0, feeGrowthGlobal1X128 = Some g1,
      date = Some (Fin 1700000000), periodStartUnix = None\<rparr>"

text \<open>The fee growth \<open>1 / 2\<close> in the Q128 fixed-point scale of the accumulators.\<close>

definition halfQ128 :: int where
  "halfQ128 = 2 ^ 127"

text \<open>
  The same position once it is no longer full-range and covers the ticks 60 to 120
  (prices just below 1), so that a candle at price 1, whose tick is 0, lies outside.
\<close>

definition exampleRangePosition :: LiquidUnitPosition where
  "exampleRangePosition =
     examplePosition
       \<lparr>positionType := Percent (Fin 1),
        positionRange :=
          \<lparr>tickLower = Fin 60, tickUpper = Fin 120, rangeWidth = Fin (1 / 100),
           priceLower = Fin (988 / 1000), priceUpper = Fin (994 / 1000)\<rparr>\<rparr>"


text \<open>
  A position of type \<^verbatim>\<open>'2%'\<close> constructed on the same pool at price \<open>1.05\<close> with the
  tick spacing \<open>-1000\<close>, and a day of pool data whose low price \<open>1.2\<close> is above its high
  price \<open>0.9\<close>.
\<close>

definition invertedRangePosition :: LiquidUnitPosition where
  "invertedRangePosition =
     constructor (Fin 900) (Percent (Fin 2)) (Fin 0) (Fin 1000000) (Fin (21 / 20)) (Fin 1)
       (Fin 1000000) ''USDC'' ''cbBTC'' Daily (Fin (- 1000)) 6 6 True"

definition invertedCandle :: DataPoint where
  "invertedCandle =
     (exampleDay (Fin 0) 5 7)\<lparr>low := Some (Fin (6 / 5)), high := Some (Fin (9 / 10))\<rparr>"

section \<open>What each operation leaves unchanged\<close>

lemma calculateTokensAndLiquidity_frame:
  "positionRange (calculateTokensAndLiquidity p i pr) = positionRange p"
  "positionType (calculateTokensAndLiquidity p i pr) = positionType p"
  "totalDataPoints (calculateTokensAndLiquidity p i pr) = totalDataPoints p"
  "currentPositionDataPoints (calculateTokensAndLiquidity p i pr) = currentPositionDataPoints p"
  "positionResults (calculateTokensAndLiquidity p i pr) = positionResults p"
  "previousFeeGrowth0X128 (calculateTokensAndLiquidity p i pr) = previousFeeGrowth0X128 p"
  "previousFeeGrowth1X128 (calculateTokensAndLiquidity p i pr) = previousFeeGrowth1X128 p"
  "cumulativeFees (calculateTokensAndLiquidity p i pr) = cumulativeFees p"
  "totalGasCosts (calculateTokensAndLiquidity p i pr) = totalGasCosts p"
  "initialAmount (calculateTokensAndLiquidity p i pr) = initialAmount p"
  "currentPositionCapital (calculateTokensAndLiquidity p i pr) = currentPositionCapital p"
  "currentPositionFees (calculateTokensAndLiquidity p i pr) = currentPositionFees p"
  "granularityType (calculateTokensAndLiquidity p i pr) = granularityType p"
  "token0Decimals (calculateTokensAndLiquidity p i pr) = token0Decimals p"
  "token1Decimals (calculateTokensAndLiquidity p i pr) = token1Decimals p"
  "currentToken0Price (calculateTokensAndLiquidity p i pr) = currentToken0Price p"
  "rebalanceCount (calculateTokensAndLiquidity p i pr) = rebalanceCount p"
  by (simp_all add: calculateTokensAndLiquidity_def Let_def split: prod.splits)

lemma constructor_fresh:
  "totalDataPoints (constructor a ty t tvl p0 p1 L s0 s1 g sp d0 d1 c) = 0"
  "currentPositionDataPoints (constructor a ty t tvl p0 p1 L s0 s1 g sp d0 d1 c) = 0"
  "positionResults (constructor a ty t tvl p0 p1 L s0 s1 g sp d0 d1 c) = []"
  "previousFeeGrowth0X128 (constructor a ty t tvl p0 p1 L s0 s1 g sp d0 d1 c) = 0"
  "previousFeeGrowth1X128 (constructor a ty t tvl p0 p1 L s0 s1 g sp d0 d1 c) = 0"
  "cumulativeFees (constructor a ty t tvl p0 p1 L s0 s1 g sp d0 d1 c) = Fin 0"
  "totalGasCosts (constructor a ty t tvl p0 p1 L s0 s1 g sp d0 d1 c) = Fin 0"
  "currentPositionFees (constructor a ty t tvl p0 p1 L s0 s1 g sp d0 d1 c) = Fin 0"
  "initialAmount (constructor a ty t tvl p0 p1 L s0 s1 g sp d0 d1 c) = a"
  "currentPositionCapital (constructor a ty t tvl p0 p1 L s0 s1 g sp d0 d1 c) = a"
  "granularityType (constructor a ty t tvl p0 p1 L s0 s1 g sp d0 d1 c) = g"
  "positionType (constructor a ty t tvl p0 p1 L s0 s1 g sp d0 d1 c) = ty"
  "rebalanceCount (constructor a ty t tvl p0 p1 L s0 s1 g sp d0 d1 c) = 0"
  by (simp_all add: constructor_def Let_def calculateTokensAndLiquidity_frame)

lemma constructor_FullRange_range:
  "positionRange (constructor a FullRange t tvl p0 p1 L s0 s1 g sp d0 d1 c) =
     \<lparr>tickLower = Fin (- 887272), tickUpper = Fin 887272, rangeWidth = PInf,
      priceLower = Fin 0, priceUpper = PInf\<rparr>"
  by (simp add: constructor_def Let_def calculateTokensAndLiquidity_frame
        getPositionTickRange_def)

lemma update_counters:
  "totalDataPoints (snd (update p dp wr)) = totalDataPoints p + 1"
  "currentPositionDataPoints (snd (update p dp wr)) = currentPositionDataPoints p + 1"
  by (simp_all add: update_def Let_def calculateFeesUsingSimplifiedMethod_def
        split: sum.splits prod.splits option.splits)

lemma update_frame:
  "positionRange (snd (update p dp wr)) = positionRange p"
  "positionType (snd (update p dp wr)) = positionType p"
  "positionResults (snd (update p dp wr)) = positionResults p"
  "totalGasCosts (snd (update p dp wr)) = totalGasCosts p"
  "initialAmount (snd (update p dp wr)) = initialAmount p"
  "currentPositionCapital (snd (update p dp wr)) = currentPositionCapital p"
  "granularityType (snd (update p dp wr)) = granularityType p"
  "liquidityAmount (snd (update p dp wr)) = liquidityAmount p"
  "token0Decimals (snd (update p dp wr)) = token0Decimals p"
  "token1Decimals (snd (update p dp wr)) = token1Decimals p"
  "rebalanceCount (snd (update p dp wr)) = rebalanceCount p"
  by (simp_all add: update_def Let_def calculateFeesUsingSimplifiedMethod_def
        split: sum.splits prod.splits option.splits)

lemma update_fees:
  "cumulativeFees (snd (update p dp wr)) = cumulativeFees p + fst (update p dp wr)"
  "currentPositionFees (snd (update p dp wr)) = currentPositionFees p + fst (update p dp wr)"
  by (simp_all add: update_def Let_def calculateFeesUsingSimplifiedMethod_def
        split: sum.splits prod.splits option.splits)

lemma update_skipped:
  assumes "isOutOfRange p (tick dp) \<or> wr"
  shows "fst (update p dp wr) = Fin 0"
    and "previousFeeGrowth0X128 (snd (update p dp wr)) = previousFeeGrowth0X128 p"
    and "previousFeeGrowth1X128 (snd (update p dp wr)) = previousFeeGrowth1X128 p"
  using assms
  by (auto simp add: update_def Let_def isOutOfRange_def isPositionActive_def)

lemma update_first:
  assumes "totalDataPoints p = 0"
  shows "fst (update p dp wr) = Fin 0"
  using assms
  by (auto simp add: update_def Let_def calculateFeesUsingSimplifiedMethod_def
        split: sum.splits prod.splits option.splits)

lemma update_first_seed:
  assumes "totalDataPoints p = 0" and "\<not> isOutOfRange p (tick dp)" and "\<not> wr"
    and "feeGrowthGlobal0X128 dp = Some x" and "feeGrowthGlobal1X128 dp = Some y"
  shows "previousFeeGrowth0X128 (snd (update p dp wr)) = x"
    and "previousFeeGrowth1X128 (snd (update p dp wr)) = y"
  using assms
  by (auto simp add: update_def Let_def calculateFeesUsingSimplifiedMethod_def
        isOutOfRange_def isPositionActive_def
        split: sum.splits prod.splits option.splits)

lemma examplePosition_range:
  "tickLower (positionRange examplePosition) = Fin (- 887272)"
  "tickUpper (positionRange examplePosition) = Fin 887272"
  by (simp_all add: examplePosition_def constructor_FullRange_range)

lemma examplePosition_fresh:
  "totalDataPoints examplePosition = 0"
  "currentPositionDataPoints examplePosition = 0"
  "positionResults examplePosition = []"
  "previousFeeGrowth0X128 examplePosition = 0"
  "previousFeeGrowth1X128 examplePosition = 0"
  "cumulativeFees examplePosition = Fin 0"
  "totalGasCosts examplePosition = Fin 0"
  "currentPositionFees examplePosition = Fin 0"
  "initialAmount examplePosition = Fin 900"
  "currentPositionCapital examplePosition = Fin 900"
  "granularityType examplePosition = Daily"
  "positionType examplePosition = FullRange"
  "rebalanceCount examplePosition = 0"
  by (simp_all add: examplePosition_def constructor_fresh)

lemma examplePosition_market:
  "tickSpacing examplePosition = Fin 60"
  "currentToken0Price examplePosition = Fin 1"
  "token0Decimals examplePosition = 6"
  "token1Decimals examplePosition = 6"
  by (simp_all add: examplePosition_def constructor_def Let_def
        calculateTokensAndLiquidity_frame calculateTokensAndLiquidity_def)

section \<open>Fee accrual on an in-range step\<close>

lemma sqrt_100: "sqrt 100 = 10"
  by (rule real_sqrt_unique) simp_all

lemma sqrt_hundredth: "sqrt (1 / 100) = 1 / 10"
  by (rule real_sqrt_unique) (simp_all add: power2_eq_square)

lemma examplePosition_liquidity:
  "liquidityAmount examplePosition = Fin 500000000"
  by (simp add: examplePosition_def constructor_def Let_def calculateTokensAndLiquidity_def
        liquidityForStrategy_def Math_pow_def sqrt_100 sqrt_hundredth real_sqrt_divide)

lemma update_fee_in_range:
  assumes "\<not> isOutOfRange p (tick dp)" and "\<not> wr"
    and "feeGrowthGlobal0X128 dp = Some g0" and "feeGrowthGlobal1X128 dp = Some g1"
    and "totalDataPoints p \<noteq> 0"
  shows "fst (update p dp wr) =
           (Fin (of_int (g0 - previousFeeGrowth0X128 p)) / Math_pow 2 128 /
              Math_pow 10 (token0Decimals p) * liquidityAmount p *
              calculateActiveLiquidityForCandle p dp) / Fin 100 +
           (Fin (of_int (g1 - previousFeeGrowth1X128 p)) / Math_pow 2 128 /
              Math_pow 10 (token1Decimals p) * liquidityAmount p *
              calculateActiveLiquidityForCandle p dp) / Fin 100 * token0Price dp"
  using assms
  by (simp add: update_def Let_def calculateFeesUsingSimplifiedMethod_def
        isOutOfRange_def isPositionActive_def calculateActiveLiquidityForCandle_def
        getTickFromPrice_def)

section \<open>Fee accrual on skipped steps\<close>

text \<open>
  C1 at a first snapshot that is flagged \<open>wasRebalanced\<close>: the example position
  receives, as its first data point, a day whose token0 accumulator is \<open>2 ^ 127\<close>, with
  the flag set, and then the same day again without the flag. On the flagged step
  \<open>update\<close> returns 0 and the stored accumulator stays at its initial value 0 instead of
  being set to \<open>2 ^ 127\<close>: the accumulators are assigned only in
  \<open>calculateFeesUsingSimplifiedMethod\<close>, which \<open>update\<close> calls under
  \<^verbatim>\<open>if (isInRange)\<close>, so the seeding of the first snapshot is not run. The second step,
  whose accumulators are those of the first, is then charged the growth since 0 and
  returns the fee 250, where two consecutive identical accumulator values are to yield
  the fee 0.
\<close>

theorem skipped_first_snapshot_charges_next_step:
  "fst (update examplePosition (exampleDay (Fin 0) halfQ128 0) True) = Fin 0 \<and>
   previousFeeGrowth0X128
     (snd (update examplePosition (exampleDay (Fin 0) halfQ128 0) True)) = 0 \<and>
   previousFeeGrowth0X128
     (snd (update examplePosition (exampleDay (Fin 0) halfQ128 0) True)) \<noteq> halfQ128 \<and>
   fst (update (snd (update examplePosition (exampleDay (Fin 0) halfQ128 0) True))
          (exampleDay (Fin 0) halfQ128 0) False) = Fin 250"
proof -
  define s1 where "s1 = snd (update examplePosition (exampleDay (Fin 0) halfQ128 0) True)"
  have g: "feeGrowthGlobal0X128 (exampleDay (Fin 0) g0 g1) = Some g0"
    "feeGrowthGlobal1X128 (exampleDay (Fin 0) g0 g1) = Some g1"
    "token0Price (exampleDay (Fin 0) g0 g1) = Fin 1" for g0 g1
    by (simp_all add: exampleDay_def)
  have sk: "isOutOfRange examplePosition (tick (exampleDay (Fin 0) halfQ128 0)) \<or> True"
    by simp
  have f1: "fst (update examplePosition (exampleDay (Fin 0) halfQ128 0) True) = Fin 0"
    using update_skipped(1) [OF sk] .
  have prev: "previousFeeGrowth0X128 s1 = 0" "previousFeeGrowth1X128 s1 = 0"
    unfolding s1_def using update_skipped(2,3) [OF sk] by (simp_all add: examplePosition_fresh)
  have s1: "totalDataPoints s1 = 1" "liquidityAmount s1 = Fin 500000000"
    "token0Decimals s1 = 6" "token1Decimals s1 = 6"
    "positionType s1 = FullRange" "positionRange s1 = positionRange examplePosition"
    unfolding s1_def
    by (simp_all add: update_counters update_frame examplePosition_fresh
          examplePosition_liquidity examplePosition_market)
  have in1: "\<not> isOutOfRange s1 (tick (exampleDay (Fin 0) halfQ128 0))"
    by (simp add: isOutOfRange_def isPositionActive_def s1(6) examplePosition_range
          exampleDay_def)
  have act: "calculateActiveLiquidityForCandle s1 dp = Fin 100" for dp
    by (simp add: calculateActiveLiquidityForCandle_def s1(5))
  have nz: "totalDataPoints s1 \<noteq> 0" by (simp add: s1(1))
  have f2: "fst (update s1 (exampleDay (Fin 0) halfQ128 0) False) = Fin 250"
    using update_fee_in_range [OF in1 _ g(1,2) nz, of False]
    by (simp add: s1 prev act g(3) Math_pow_def halfQ128_def)
  have ne: "(0::int) \<noteq> halfQ128" by (simp add: halfQ128_def)
  show ?thesis
    using f1 prev(1) f2 ne unfolding s1_def by simp
qed

section \<open>The first data point\<close>

text \<open>
  C5: the first \<open>update\<close> of a freshly constructed position returns fee income 0
  whatever the data point holds and whether or not the step is flagged; and when the
  fee computation runs (the tick is in range, the step is not flagged, and both
  accumulator strings convert to integers) it stores the data point's accumulators as
  the previous fee-growth values.
\<close>

theorem first_update_fee_zero:
  assumes "p = constructor a ty t tvl p0 p1 L s0 s1 g sp d0 d1 c"
  shows "fst (update p dp wr) = Fin 0 \<and>
         (\<not> isOutOfRange p (tick dp) \<and> \<not> wr \<and>
          feeGrowthGlobal0X128 dp = Some x \<and> feeGrowthGlobal1X128 dp = Some y \<longrightarrow>
          previousFeeGrowth0X128 (snd (update p dp wr)) = x \<and>
          previousFeeGrowth1X128 (snd (update p dp wr)) = y)"
proof -
  have fresh: "totalDataPoints p = 0"
    using assms by (simp add: constructor_fresh)
  show ?thesis
    using update_first [OF fresh] update_first_seed [OF fresh] by blast
qed

theorem first_update_fee_zero_witness:
  "\<not> isOutOfRange examplePosition (tick (exampleDay (Fin 0) 5 7)) \<and>
   feeGrowthGlobal0X128 (exampleDay (Fin 0) 5 7) = Some 5 \<and>
   feeGrowthGlobal1X128 (exampleDay (Fin 0) 5 7) = Some 7 \<and>
   fst (update examplePosition (exampleDay (Fin 0) 5 7) False) = Fin 0 \<and>
   previousFeeGrowth0X128 (snd (update examplePosition (exampleDay (Fin 0) 5 7) False)) = 5 \<and>
   previousFeeGrowth1X128 (snd (update examplePosition (exampleDay (Fin 0) 5 7) False)) = 7"
proof -
  have inr: "\<not> isOutOfRange examplePosition (tick (exampleDay (Fin 0) 5 7))"
    by (simp add: isOutOfRange_def isPositionActive_def examplePosition_range exampleDay_def)
  have g: "feeGrowthGlobal0X128 (exampleDay (Fin 0) 5 7) = Some 5"
          "feeGrowthGlobal1X128 (exampleDay (Fin 0) 5 7) = Some 7"
    by (simp_all add: exampleDay_def)
  show ?thesis
    using inr g
      first_update_fee_zero [OF examplePosition_def,
        of "exampleDay (Fin 0) 5 7" False 5 7]
    by simp
qed

section \<open>The closing rebalance\<close>

lemma rebalance_closing_fields:
  "usdcAmount (rebalance p t tvl g True) = usdcAmount p"
  "btcAmount (rebalance p t tvl g True) = btcAmount p"
  "positionRange (rebalance p t tvl g True) = positionRange p"
  "liquidityAmount (rebalance p t tvl g True) = liquidityAmount p"
  "lpSharePercentage (rebalance p t tvl g True) = lpSharePercentage p"
  "totalGasCosts (rebalance p t tvl g True) = totalGasCosts p"
  "rebalanceCount (rebalance p t tvl g True) = rebalanceCount p"
  "cumulativeFees (rebalance p t tvl g True) = cumulativeFees p"
  "positionResults (rebalance p t tvl g True) =
     (if 0 < currentPositionDataPoints p
      then positionResults p @
             [\<lparr>duration = currentPositionDataPoints p, fees = currentPositionFees p,
               gasCost = g, startingCapital = currentPositionCapital p\<rparr>]
      else positionResults p)"
  by (simp_all add: rebalance_def Let_def)

lemma one_update_example:
  "currentPositionDataPoints (snd (update examplePosition (exampleDay (Fin 0) 5 7) False)) = 1"
  "currentPositionFees (snd (update examplePosition (exampleDay (Fin 0) 5 7) False)) = Fin 0"
  "currentPositionCapital (snd (update examplePosition (exampleDay (Fin 0) 5 7) False)) = Fin 900"
  "positionResults (snd (update examplePosition (exampleDay (Fin 0) 5 7) False)) = []"
  "totalGasCosts (snd (update examplePosition (exampleDay (Fin 0) 5 7) False)) = Fin 0"
  "rebalanceCount (snd (update examplePosition (exampleDay (Fin 0) 5 7) False)) = 0"
  by (simp_all add: update_counters update_fees update_frame update_first examplePosition_fresh)

text \<open>
  C6, as the source has it. A call \<open>rebalance(tick, tvl, gasCost, true)\<close> appends
  exactly one record to \<open>positionResults\<close> when the open sub-position has seen at
  least one data point, and appends nothing when it has seen none (the source pushes
  under \<^verbatim>\<open>if (this.currentPositionDataPoints > 0)\<close>). In both cases it allocates
  nothing: the token balances \<open>usdcAmount\<close> and \<open>btcAmount\<close>, the position range, the
  liquidity amount and the pool share are those of the position before the call.
\<close>

theorem rebalance_closing_effect:
  "(0 < currentPositionDataPoints p \<longrightarrow>
      positionResults (rebalance p t tvl g True) =
        positionResults p @
          [\<lparr>duration = currentPositionDataPoints p, fees = currentPositionFees p,
            gasCost = g, startingCapital = currentPositionCapital p\<rparr>]) \<and>
   (currentPositionDataPoints p = 0 \<longrightarrow>
      positionResults (rebalance p t tvl g True) = positionResults p) \<and>
   usdcAmount (rebalance p t tvl g True) = usdcAmount p \<and>
   btcAmount (rebalance p t tvl g True) = btcAmount p \<and>
   positionRange (rebalance p t tvl g True) = positionRange p \<and>
   liquidityAmount (rebalance p t tvl g True) = liquidityAmount p \<and>
   lpSharePercentage (rebalance p t tvl g True) = lpSharePercentage p"
  by (simp add: rebalance_closing_fields)

theorem rebalance_closing_effect_witness:
  "currentPositionDataPoints examplePosition = 0 \<and>
   positionResults (rebalance examplePosition (Fin 0) (Fin 1000000) (Fin 5) True) = [] \<and>
   0 < currentPositionDataPoints (snd (update examplePosition (exampleDay (Fin 0) 5 7) False)) \<and>
   positionResults
     (rebalance (snd (update examplePosition (exampleDay (Fin 0) 5 7) False))
        (Fin 0) (Fin 1000000) (Fin 5) True) =
     [\<lparr>duration = 1, fees = Fin 0, gasCost = Fin 5, startingCapital = Fin 900\<rparr>]"
  using rebalance_closing_effect [of examplePosition "Fin 0" "Fin 1000000" "Fin 5"]
    rebalance_closing_effect
      [of "snd (update examplePosition (exampleDay (Fin 0) 5 7) False)"
          "Fin 0" "Fin 1000000" "Fin 5"]
  by (simp add: examplePosition_fresh one_update_example)

text \<open>
  C6 as the specification states it fails: closing a freshly constructed position,
  which has no data point yet, does not add a record to the history.
\<close>

theorem rebalance_closing_append_counterexample:
  "length (positionResults (rebalance examplePosition (Fin 0) (Fin 1000000) (Fin 5) True)) \<noteq>
   length (positionResults examplePosition) + 1"
  by (simp add: rebalance_closing_fields examplePosition_fresh)

text \<open>
  C9, as the source has it. A closing \<open>rebalance\<close> with gas cost \<open>g\<close> leaves
  \<open>totalGasCosts\<close> and \<open>rebalanceCount\<close> (and the accessors \<open>gasCostsTotal\<close>,
  \<open>rebalanceCountTotal\<close>) as they were, so \<open>netFeesEarned\<close>, which is
  \<open>cumulativeFees - totalGasCosts\<close>, does not count \<open>g\<close>. When the open sub-position
  has seen at least one data point, \<open>g\<close> is the \<open>gasCost\<close> field of the record the call
  appends to the history, and that record is the only place where the position after
  the call depends on \<open>g\<close>. When the open sub-position has seen no data point, nothing
  is appended and \<open>g\<close> is recorded nowhere: the position after the call is the same for
  every gas cost.
\<close>

theorem closing_gas_not_accumulated:
  "totalGasCosts (rebalance p t tvl g True) = totalGasCosts p \<and>
   gasCostsTotal (rebalance p t tvl g True) = gasCostsTotal p \<and>
   rebalanceCount (rebalance p t tvl g True) = rebalanceCount p \<and>
   rebalanceCountTotal (rebalance p t tvl g True) = rebalanceCountTotal p \<and>
   netFeesEarned (rebalance p t tvl g True) = netFeesEarned p \<and>
   netFeesEarned (rebalance p t tvl g True) = cumulativeFees p - totalGasCosts p \<and>
   (0 < currentPositionDataPoints p \<longrightarrow>
      map gasCost (positionResults (rebalance p t tvl g True)) =
        map gasCost (positionResults p) @ [g] \<and>
      rebalance p t tvl g True =
        (rebalance p t tvl g' True)
          \<lparr>positionResults := positionResults p @
             [\<lparr>duration = currentPositionDataPoints p, fees = currentPositionFees p,
               gasCost = g, startingCapital = currentPositionCapital p\<rparr>]\<rparr>) \<and>
   (currentPositionDataPoints p = 0 \<longrightarrow>
      rebalance p t tvl g True = rebalance p t tvl g' True)"
  by (simp add: rebalance_closing_fields netFeesEarned_def gasCostsTotal_def
        rebalanceCountTotal_def) (simp add: rebalance_def Let_def)

theorem closing_gas_not_accumulated_witness:
  "0 < currentPositionDataPoints (snd (update examplePosition (exampleDay (Fin 0) 5 7) False)) \<and>
   totalGasCosts
     (rebalance (snd (update examplePosition (exampleDay (Fin 0) 5 7) False))
        (Fin 0) (Fin 1000000) (Fin 5) True) = Fin 0 \<and>
   rebalanceCount
     (rebalance (snd (update examplePosition (exampleDay (Fin 0) 5 7) False))
        (Fin 0) (Fin 1000000) (Fin 5) True) = 0 \<and>
   map gasCost (positionResults
     (rebalance (snd (update examplePosition (exampleDay (Fin 0) 5 7) False))
        (Fin 0) (Fin 1000000) (Fin 5) True)) = [Fin 5] \<and>
   currentPositionDataPoints examplePosition = 0 \<and>
   rebalance examplePosition (Fin 0) (Fin 1000000) (Fin 5) True =
     rebalance examplePosition (Fin 0) (Fin 1000000) (Fin 7) True"
  using closing_gas_not_accumulated
      [of "snd (update examplePosition (exampleDay (Fin 0) 5 7) False)"
          "Fin 0" "Fin 1000000" "Fin 5"]
    closing_gas_not_accumulated [of examplePosition "Fin 0" "Fin 1000000" "Fin 5" "Fin 7"]
  by (simp add: one_update_example examplePosition_fresh)

text \<open>
  C9 as the specification states it, for every call, fails: closing a freshly
  constructed position, which has no data point yet, with the gas cost 5 appends no
  record, so no record holds the 5, and the position after the call is the one a
  closing call with the gas cost 7 gives.
\<close>

theorem closing_gas_unrecorded_counterexample:
  "positionResults (rebalance examplePosition (Fin 0) (Fin 1000000) (Fin 5) True) = [] \<and>
   Fin 5 \<notin> gasCost ` set (positionResults
                (rebalance examplePosition (Fin 0) (Fin 1000000) (Fin 5) True)) \<and>
   rebalance examplePosition (Fin 0) (Fin 1000000) (Fin 5) True =
     rebalance examplePosition (Fin 0) (Fin 1000000) (Fin 7) True"
  by (simp add: rebalance_closing_fields examplePosition_fresh)
     (simp add: rebalance_def Let_def examplePosition_fresh)

section \<open>The range test\<close>

text \<open>
  C10, as the source has it. The test is inclusive at both bounds: for a position whose
  range has \<open>tickLower \<le> tickUpper\<close>, \<open>isOutOfRange\<close> is false at \<open>tickLower\<close> and
  at \<open>tickUpper\<close>. For a tick \<open>t\<close> that is a number, and range bounds that are numbers,
  \<open>isOutOfRange\<close> is true if and only if \<open>t < tickLower\<close> or \<open>t > tickUpper\<close>. For the
  tick \<open>NaN\<close> (what \<^verbatim>\<open>parseInt\<close> returns on a tick string that is not a number)
  \<open>isOutOfRange\<close> is true.
\<close>

theorem isOutOfRange_inclusive:
  "(tickLower (positionRange p) \<le> tickUpper (positionRange p) \<longrightarrow>
      \<not> isOutOfRange p (tickLower (positionRange p)) \<and>
      \<not> isOutOfRange p (tickUpper (positionRange p))) \<and>
   (\<not> isNaN t \<and> \<not> isNaN (tickLower (positionRange p)) \<and>
    \<not> isNaN (tickUpper (positionRange p)) \<longrightarrow>
      (isOutOfRange p t \<longleftrightarrow>
         t < tickLower (positionRange p) \<or> t > tickUpper (positionRange p))) \<and>
   isOutOfRange p NaN"
  unfolding isOutOfRange_def isPositionActive_def
  by (cases "tickLower (positionRange p)"; cases "tickUpper (positionRange p)"; cases t) auto

theorem isOutOfRange_inclusive_witness:
  "tickLower (positionRange examplePosition) \<le> tickUpper (positionRange examplePosition) \<and>
   \<not> isNaN (Fin 887273) \<and>
   \<not> isNaN (tickLower (positionRange examplePosition)) \<and>
   \<not> isNaN (tickUpper (positionRange examplePosition)) \<and>
   \<not> isOutOfRange examplePosition (Fin (- 887272)) \<and>
   \<not> isOutOfRange examplePosition (Fin 887272) \<and>
   isOutOfRange examplePosition (Fin 887273)"
  using isOutOfRange_inclusive [of examplePosition "Fin 887273"]
  by (simp add: examplePosition_range)

text \<open>
  C10 as stated, for every tick, fails at the tick \<open>NaN\<close>: \<open>isOutOfRange\<close> is true
  there although \<open>NaN\<close> is neither below \<open>tickLower\<close> nor above \<open>tickUpper\<close>.
\<close>

theorem isOutOfRange_NaN_counterexample:
  "\<not> (isOutOfRange examplePosition NaN \<longleftrightarrow>
        NaN < tickLower (positionRange examplePosition) \<or>
        NaN > tickUpper (positionRange examplePosition))"
  by (simp add: isOutOfRange_def isPositionActive_def examplePosition_range)

section \<open>Arithmetic up to NaN\<close>























text \<open>Square roots of prices scaled by a power of ten.\<close>

lemma pow10_pos: "0 < (10::real) powi d" "\<not> (10::real) powi d < 0" "\<not> (10::real) powi d \<le> 0"
  by (simp_all add: zero_less_power_int not_less not_le less_imp_le)






section \<open>The allocation\<close>

text \<open>
  \<open>tokensForStrategy\<close> with its local names expanded, and what its three branches
  return: amounts that are not negative, and that grow with the investment.
\<close>

lemma tokens_eq:
  assumes "k = Math_pow 10 d" "sp = Math_sqrt (price * k)" "sl = Math_sqrt (lo * k)"
    "sh = Math_sqrt (hi * k)"
  shows "tokensForStrategy lo hi v price d =
     (if sl < sp \<and> sp < sh then
        (v / (sp - sl + (Fin 1 / sp - Fin 1 / sh) * (price * k)) * (Fin 1 / sp - Fin 1 / sh) * k,
         v / (sp - sl + (Fin 1 / sp - Fin 1 / sh) * (price * k)) * (sp - sl))
      else if sp < sl then
        (v / ((Fin 1 / sl - Fin 1 / sh) * price) * (Fin 1 / sl - Fin 1 / sh), Fin 0)
      else (Fin 0, v / (sh - sl) * (sh - sl)))"
  using assms by (simp add: tokensForStrategy_def Let_def)







text \<open>
  At a price equal to the lower bound the second branch of \<open>tokensForStrategy\<close>, which
  tests \<^verbatim>\<open>sqrtPrice < sqrtLow\<close> strictly, is not taken, and the whole investment goes to
  the second amount.
\<close>

lemma tokens_lower_boundary:
  assumes "0 < lo" "lo < hi"
  shows "tokensForStrategy (Fin lo) (Fin hi) (Fin i) (Fin lo) d = (Fin 0, Fin i)"
proof -
  have k: "0 < (10::real) powi d" by (simp add: zero_less_power_int)
  have "lo * 10 powi d < hi * 10 powi d" using assms k by simp
  then have s: "sqrt (lo * 10 powi d) < sqrt (hi * 10 powi d)" by simp
  have nn: "\<not> lo * 10 powi d < 0" "\<not> hi * 10 powi d < 0"
    using assms k by (simp_all add: not_less mult_nonneg_nonneg less_imp_le)
  show ?thesis
    using s nn by (simp add: tokensForStrategy_def Let_def Math_pow_def)
qed

text \<open>
  At a negative price \<open>sqrtPrice\<close> is \<open>NaN\<close>, both tests fail, and the last branch
  returns the whole investment as the second amount although the price is below the
  lower bound.
\<close>

lemma tokens_negative_price:
  "tokensForStrategy (Fin 1) (Fin 4) (Fin 100) (Fin (- 1)) 0 = (Fin 0, Fin 100)"
  by (simp add: tokensForStrategy_def Let_def Math_pow_def)





text \<open>What \<open>calculateTokensAndLiquidity\<close> stores.\<close>

lemma liquidityForStrategy_decimals:
  "liquidityForStrategy (p\<lparr>usdcAmount := u\<rparr>) = liquidityForStrategy p"
  "liquidityForStrategy (p\<lparr>btcAmount := b\<rparr>) = liquidityForStrategy p"
  by (cases p; simp only: fun_eq_iff liquidityForStrategy_def LiquidUnitPosition.simps; simp)+

lemma calculateTokensAndLiquidity_FullRange:
  assumes "positionType p = FullRange"
  shows "usdcAmount (calculateTokensAndLiquidity p v price) = v / Fin 2"
    and "btcAmount (calculateTokensAndLiquidity p v price) = v / Fin 2 / price"
    and "liquidityAmount (calculateTokensAndLiquidity p v price) =
           liquidityForStrategy p price (price * Fin (1 / 100)) (price * Fin 100)
             (v / Fin 2 / price) (v / Fin 2)"
  using assms
  by (simp_all add: calculateTokensAndLiquidity_def Let_def liquidityForStrategy_decimals)

lemma calculateTokensAndLiquidity_Percent:
  assumes "positionType p \<noteq> FullRange"
  shows "btcAmount (calculateTokensAndLiquidity p v price) =
           fst (tokensForStrategy (priceLower (positionRange p)) (priceUpper (positionRange p))
                  v price (token0Decimals p - token1Decimals p))"
    and "usdcAmount (calculateTokensAndLiquidity p v price) =
           snd (tokensForStrategy (priceLower (positionRange p)) (priceUpper (positionRange p))
                  v price (token0Decimals p - token1Decimals p))"
    and "liquidityAmount (calculateTokensAndLiquidity p v price) =
           (case tokensForStrategy (priceLower (positionRange p)) (priceUpper (positionRange p))
                   v price (token0Decimals p - token1Decimals p) of
              (amount0, amount1) \<Rightarrow>
                liquidityForStrategy p price (priceLower (positionRange p))
                  (priceUpper (positionRange p)) amount0 amount1)"
  using assms
  by (simp_all add: calculateTokensAndLiquidity_def Let_def liquidityForStrategy_decimals
        split: prod.splits)







section \<open>The three regions of the allocation\<close>




section \<open>Liquidity as a function of the investment\<close>




section \<open>The range and the balances after an allocation\<close>




text \<open>
  At the token0 price \<open>Infinity\<close> a position of any type has a liquidity or a balance
  that is \<open>NaN\<close>: the scaled prices are infinite, and their difference is \<open>NaN\<close>.
\<close>

lemma infinite_sqrt:
  assumes "\<not> isFinite x"
  shows "Math_sqrt (x * Math_pow 10 d) = PInf \<or> Math_sqrt (x * Math_pow 10 d) = NaN"
  using assms by (cases x) (auto simp add: Math_pow_def pow10_pos)

lemma infinite_price_tokens:
  assumes "\<not> isFinite lo" "\<not> isFinite hi"
  shows "snd (tokensForStrategy lo hi (Fin i) PInf d) = NaN"
proof -
  define k where "k = Math_pow 10 d"
  define sp where "sp = Math_sqrt (PInf * k)"
  define sl where "sl = Math_sqrt (lo * k)"
  define sh where "sh = Math_sqrt (hi * k)"
  note t = tokens_eq [OF k_def sp_def sl_def sh_def, of "Fin i"]
  have sp: "sp = PInf" by (simp add: sp_def k_def Math_pow_def pow10_pos)
  have sl: "sl = PInf \<or> sl = NaN" unfolding sl_def k_def using assms(1) by (rule infinite_sqrt)
  have sh: "sh = PInf \<or> sh = NaN" unfolding sh_def k_def using assms(2) by (rule infinite_sqrt)
  show ?thesis
    unfolding t sp using sl sh by auto
qed

lemma infinite_price_bounds:
  "\<not> isFinite (PInf * x)"
  by (cases x) auto

lemma infinite_price_holdings:
  "\<not> (Fin 0 \<le> liquidityAmount
              (constructor (Fin 900) ty (Fin 0) (Fin 1000000) PInf (Fin 1) (Fin 1000000)
                 ''USDC'' ''cbBTC'' Daily (Fin 60) 6 6 True) \<and>
      Fin 0 \<le> usdcAmount
              (constructor (Fin 900) ty (Fin 0) (Fin 1000000) PInf (Fin 1) (Fin 1000000)
                 ''USDC'' ''cbBTC'' Daily (Fin 60) 6 6 True))"
proof (cases ty)
  case FullRange
  then show ?thesis
    by (simp add: constructor_def Let_def calculateTokensAndLiquidity_FullRange
          liquidityForStrategy_def Math_pow_def)
next
  case (Percent n)
  have "usdcAmount
          (constructor (Fin 900) (Percent n) (Fin 0) (Fin 1000000) PInf (Fin 1) (Fin 1000000)
             ''USDC'' ''cbBTC'' Daily (Fin 60) 6 6 True) = NaN"
    unfolding constructor_def Let_def
    by (simp add: calculateTokensAndLiquidity_Percent getPositionTickRange_def Let_def
          infinite_price_tokens infinite_price_bounds)
  then show ?thesis by (simp add: Percent)
qed





section \<open>The active-liquidity fraction\<close>

lemma ln_base_pos: "0 < ln (10001 / 10000 :: real)"
  by simp

lemma getTickFromPrice_Fin:
  assumes "0 < q"
  shows "\<exists>z::int. getTickFromPrice p (Fin q) = Fin (of_int z)"
proof -
  define v where "v = 1 / q * 10 powi (token1Decimals p - token0Decimals p)"
  have v: "0 < v"
    unfolding v_def using assms by (simp add: zero_less_power_int)
  have a: "Fin 1 / Fin q = Fin (1 / q)"
    using assms by simp
  have b: "Fin (1 / q) * Math_pow 10 (token1Decimals p - token0Decimals p) = Fin v"
    by (simp only: Math_pow_def v_def times_jsnum.simps)
  have c: "Math_log (Fin v) = Fin (ln v)"
    using v by simp
  have d: "Math_log (Fin (10001 / 10000)) = Fin (ln (10001 / 10000))"
    by simp
  have e: "Fin (ln v) / Fin (ln (10001 / 10000)) = Fin (ln v / ln (10001 / 10000))"
    using ln_base_pos by simp
  show ?thesis
    unfolding getTickFromPrice_def Let_def a b c d e by simp
qed

lemma positive_finite:
  assumes "isFinite x" and "\<not> x \<le> Fin 0"
  shows "\<exists>a. x = Fin a \<and> 0 < a"
  using assms by (cases x) auto

lemma getTickFromPrice_one:
  assumes "token0Decimals p = token1Decimals p"
  shows "getTickFromPrice p (Fin 1) = Fin 0"
  using assms by (simp add: getTickFromPrice_def Let_def Math_pow_def)

lemma exampleRangePosition_fields:
  "positionType exampleRangePosition = Percent (Fin 1)"
  "tickLower (positionRange exampleRangePosition) = Fin 60"
  "tickUpper (positionRange exampleRangePosition) = Fin 120"
  "token0Decimals exampleRangePosition = token1Decimals exampleRangePosition"
  by (simp_all add: exampleRangePosition_def examplePosition_market)

text \<open>
  The arithmetic of \<open>calculateActiveLiquidityForCandle\<close> on two candle ticks \<open>l\<close> and
  \<open>h\<close> and a range from \<open>mn\<close> to \<open>mx\<close>: the result lies between 0 and 100 unless the
  range is inverted and the candle's ticks lie on either side of it
  (\<open>l < mx < mn < h\<close>), where it is negative.
\<close>

lemma candle_ratio_result:
  fixes l h :: real
  shows "(let lowTick = Fin l; highTick = Fin h;
              divider = (if highTick - lowTick \<noteq> Fin 0 then highTick - lowTick else Fin 1);
              ratioTrue =
                (if highTick - lowTick \<noteq> Fin 0
                 then (Math_min mx highTick - Math_max mn lowTick) / divider
                 else Fin 1);
              ratio = (if highTick > mn \<and> lowTick < mx then ratioTrue * Fin 100 else Fin 0)
          in if isNaN ratio \<or> falsy ratio then Fin 0 else ratio) = r
         \<Longrightarrow>
         (\<not> (mx < mn \<and> Fin l < mx \<and> mn < Fin h) \<longrightarrow> Fin 0 \<le> r \<and> r \<le> Fin 100) \<and>
         (mx < mn \<and> Fin l < mx \<and> mn < Fin h \<longrightarrow> r < Fin 0) \<and>
         (Math_max (Fin l) (Fin h) < mn \<or> mx < Math_min (Fin l) (Fin h) \<longrightarrow> r = Fin 0)"
  apply (cases mn; cases mx)
  apply (auto simp add: Let_def min_def max_def divide_le_eq le_divide_eq divide_less_eq
         split: if_splits)
  done

lemma activeLiquidity_candle:
  assumes "lowP = (case low dp of Some v \<Rightarrow> v | None \<Rightarrow> token0Price dp)"
      and "highP = (case high dp of Some v \<Rightarrow> v | None \<Rightarrow> token0Price dp)"
      and "positionType p \<noteq> FullRange"
      and "\<not> (\<not> isFinite lowP \<or> \<not> isFinite highP \<or> lowP \<le> Fin 0 \<or> highP \<le> Fin 0)"
  shows "(\<not> (tickUpper (positionRange p) < tickLower (positionRange p) \<and>
             getTickFromPrice p lowP < tickUpper (positionRange p) \<and>
             tickLower (positionRange p) < getTickFromPrice p highP) \<longrightarrow>
            Fin 0 \<le> calculateActiveLiquidityForCandle p dp \<and>
            calculateActiveLiquidityForCandle p dp \<le> Fin 100) \<and>
         (tickUpper (positionRange p) < tickLower (positionRange p) \<and>
          getTickFromPrice p lowP < tickUpper (positionRange p) \<and>
          tickLower (positionRange p) < getTickFromPrice p highP \<longrightarrow>
            calculateActiveLiquidityForCandle p dp < Fin 0) \<and>
         (Math_max (getTickFromPrice p lowP) (getTickFromPrice p highP)
             < tickLower (positionRange p) \<or>
          tickUpper (positionRange p)
             < Math_min (getTickFromPrice p lowP) (getTickFromPrice p highP) \<longrightarrow>
            calculateActiveLiquidityForCandle p dp = Fin 0)"
proof -
  obtain a b where ab: "lowP = Fin a" "0 < a" "highP = Fin b" "0 < b"
    using assms(4) positive_finite [of lowP] positive_finite [of highP] by blast
  obtain l where l: "getTickFromPrice p (Fin a) = Fin (of_int l)"
    using getTickFromPrice_Fin [OF ab(2)] by blast
  obtain h where h: "getTickFromPrice p (Fin b) = Fin (of_int h)"
    using getTickFromPrice_Fin [OF ab(4)] by blast
  have "(let lowTick = Fin (of_int l); highTick = Fin (of_int h);
            divider = (if highTick - lowTick \<noteq> Fin 0 then highTick - lowTick else Fin 1);
            ratioTrue =
              (if highTick - lowTick \<noteq> Fin 0
               then (Math_min (tickUpper (positionRange p)) highTick -
                     Math_max (tickLower (positionRange p)) lowTick) / divider
               else Fin 1);
            ratio = (if highTick > tickLower (positionRange p) \<and>
                        lowTick < tickUpper (positionRange p)
                     then ratioTrue * Fin 100 else Fin 0)
        in if isNaN ratio \<or> falsy ratio then Fin 0 else ratio) =
        calculateActiveLiquidityForCandle p dp"
    using assms(3,4)
    unfolding calculateActiveLiquidityForCandle_def assms(1,2) [symmetric]
    by (simp only: ab(1,3) l h Let_def if_False)
  from candle_ratio_result [OF this] show ?thesis
    unfolding ab(1,3) l h by blast
qed

text \<open>
  C4, as the source has it. Let \<open>lowP\<close> and \<open>highP\<close> be the low and high prices the
  function parses from the data point (the token0 price where the field is empty),
  and \<open>lowTick\<close> and \<open>highTick\<close> their ticks. The active-liquidity fraction is 100 for
  a full-range position whatever the data point holds. For any other position it is 0
  when \<open>lowP\<close> or \<open>highP\<close> is not finite or not positive, and it is 0 when \<open>lowTick\<close>
  and \<open>highTick\<close> both lie below \<open>tickLower\<close> or both lie above \<open>tickUpper\<close> (the
  candle does not overlap the range). The fraction lies between 0 and 100 in all cases
  but one: when the position is not full-range, \<open>lowP\<close> and \<open>highP\<close> are finite and
  positive, the range is inverted (\<open>tickUpper < tickLower\<close>) and the candle's ticks lie
  on either side of it (\<open>lowTick < tickUpper\<close> and \<open>tickLower < highTick\<close>), the
  fraction is negative.
\<close>

theorem activeLiquidity_fraction:
  assumes "lowP = (case low dp of Some v \<Rightarrow> v | None \<Rightarrow> token0Price dp)"
      and "highP = (case high dp of Some v \<Rightarrow> v | None \<Rightarrow> token0Price dp)"
  shows "(positionType p = FullRange \<longrightarrow> calculateActiveLiquidityForCandle p dp = Fin 100) \<and>
         (positionType p \<noteq> FullRange \<and>
          (\<not> isFinite lowP \<or> \<not> isFinite highP \<or> lowP \<le> Fin 0 \<or> highP \<le> Fin 0) \<longrightarrow>
            calculateActiveLiquidityForCandle p dp = Fin 0) \<and>
         (positionType p \<noteq> FullRange \<and>
          (Math_max (getTickFromPrice p lowP) (getTickFromPrice p highP)
             < tickLower (positionRange p) \<or>
           tickUpper (positionRange p)
             < Math_min (getTickFromPrice p lowP) (getTickFromPrice p highP)) \<longrightarrow>
            calculateActiveLiquidityForCandle p dp = Fin 0) \<and>
         (positionType p \<noteq> FullRange \<and>
          \<not> (\<not> isFinite lowP \<or> \<not> isFinite highP \<or> lowP \<le> Fin 0 \<or> highP \<le> Fin 0) \<and>
          tickUpper (positionRange p) < tickLower (positionRange p) \<and>
          getTickFromPrice p lowP < tickUpper (positionRange p) \<and>
          tickLower (positionRange p) < getTickFromPrice p highP \<longrightarrow>
            calculateActiveLiquidityForCandle p dp < Fin 0) \<and>
         (\<not> (positionType p \<noteq> FullRange \<and>
             \<not> (\<not> isFinite lowP \<or> \<not> isFinite highP \<or> lowP \<le> Fin 0 \<or> highP \<le> Fin 0) \<and>
             tickUpper (positionRange p) < tickLower (positionRange p) \<and>
             getTickFromPrice p lowP < tickUpper (positionRange p) \<and>
             tickLower (positionRange p) < getTickFromPrice p highP) \<longrightarrow>
            Fin 0 \<le> calculateActiveLiquidityForCandle p dp \<and>
            calculateActiveLiquidityForCandle p dp \<le> Fin 100)"
proof (cases "positionType p = FullRange")
  case True
  then show ?thesis by (simp add: calculateActiveLiquidityForCandle_def)
next
  case nf: False
  show ?thesis
  proof (cases "\<not> isFinite lowP \<or> \<not> isFinite highP \<or> lowP \<le> Fin 0 \<or> highP \<le> Fin 0")
    case True
    then have "calculateActiveLiquidityForCandle p dp = Fin 0"
      using nf unfolding calculateActiveLiquidityForCandle_def Let_def assms [symmetric]
      by simp
    then show ?thesis using nf True by simp
  next
    case False
    from activeLiquidity_candle [OF assms nf False] nf False show ?thesis
      by blast
  qed
qed

text \<open>The ticks of the prices used below, from bounds on the logarithm.\<close>

lemma ln_lower_bound:
  assumes "0 < (x::real)"
  shows "1 - 1 / x \<le> ln x"
proof -
  have "ln (1 / x) \<le> 1 / x - 1"
    using assms by (intro ln_le_minus_one) simp
  then show ?thesis
    using assms by (simp add: ln_div)
qed

lemma ln_base_bounds:
  "1 / 10001 \<le> ln (10001 / 10000 :: real)" "ln (10001 / 10000 :: real) \<le> 1 / 10000"
proof -
  show "1 / 10001 \<le> ln (10001 / 10000 :: real)"
    using ln_lower_bound [of "10001 / 10000"] by simp
  show "ln (10001 / 10000 :: real) \<le> 1 / 10000"
    using ln_le_minus_one [of "10001 / 10000 :: real"] by simp
qed

lemma raw_tick_above_one:
  assumes "1 < (v::real)"
  shows "- ((v - 1) * 10001) \<le> ln (1 / v) / ln (10001 / 10000)"
    and "ln (1 / v) / ln (10001 / 10000) \<le> - ((1 - 1 / v) * 10000)"
proof -
  have v: "0 < v" using assms by simp
  have lo: "1 - 1 / v \<le> ln v" using ln_lower_bound [OF v] .
  have hi: "ln v \<le> v - 1" using ln_le_minus_one [OF v] .
  have nn: "0 \<le> ln v" using assms by simp
  have nn': "0 \<le> 1 - 1 / v" using assms by simp
  have "ln v / ln (10001 / 10000) \<le> (v - 1) / (1 / 10001)"
    using hi nn ln_base_bounds(1) by (intro frac_le) simp_all
  moreover have "(1 - 1 / v) / (1 / 10000) \<le> ln v / ln (10001 / 10000)"
    using lo nn' ln_base_bounds(2) ln_base_pos by (intro frac_le) simp_all
  moreover have "ln (1 / v) / ln (10001 / 10000) = - (ln v / ln (10001 / 10000))"
    using v by (simp add: ln_div)
  ultimately show "- ((v - 1) * 10001) \<le> ln (1 / v) / ln (10001 / 10000)"
    and "ln (1 / v) / ln (10001 / 10000) \<le> - ((1 - 1 / v) * 10000)"
    by simp_all
qed

lemma raw_tick_below_one:
  assumes "0 < (v::real)" "v < 1"
  shows "(1 - v) * 10000 \<le> ln (1 / v) / ln (10001 / 10000)"
proof -
  have "1 - 1 / (1 / v) \<le> ln (1 / v)"
    using assms by (intro ln_lower_bound) simp
  then have lo: "1 - v \<le> ln (1 / v)" by simp
  have nn: "0 \<le> 1 - v" using assms by simp
  have "(1 - v) / (1 / 10000) \<le> ln (1 / v) / ln (10001 / 10000)"
    using lo nn ln_base_bounds(2) ln_base_pos by (intro frac_le) simp_all
  then show ?thesis by simp
qed

lemma getTickFromPrice_equal_decimals:
  assumes "token0Decimals p = token1Decimals p" and "0 < v"
  shows "getTickFromPrice p (Fin v) =
           Fin (of_int \<lfloor>ln (1 / v) / ln (10001 / 10000) + 1 / 2\<rfloor>)"
  using assms by (simp add: getTickFromPrice_def Let_def Math_pow_def ln_div)

lemma negative_spacing_bucket:
  assumes "- 1000 < (z::int)" and "z < 0"
  shows "Math_floor (Fin (of_int z) / Fin (- 1000)) * Fin (- 1000) = Fin 0"
    and "Math_ceil (Fin (of_int z) / Fin (- 1000)) * Fin (- 1000) = Fin (- 1000)"
proof -
  have f: "\<lfloor>real_of_int z / (- 1000)\<rfloor> = 0"
    using assms by (simp add: floor_eq_iff) 
  have c: "\<lceil>real_of_int z / (- 1000)\<rceil> = 1"
    using assms by (simp add: ceiling_eq_iff)
  show "Math_floor (Fin (of_int z) / Fin (- 1000)) * Fin (- 1000) = Fin 0"
    using f by simp
  show "Math_ceil (Fin (of_int z) / Fin (- 1000)) * Fin (- 1000) = Fin (- 1000)"
    using c by simp
qed

lemma raw_tick_in_bucket:
  assumes "token0Decimals p = token1Decimals p" and "1 < v"
    and "(v - 1) * 10001 \<le> 999" and "1 \<le> (1 - 1 / v) * 10000"
  shows "\<exists>z::int. getTickFromPrice p (Fin v) = Fin (of_int z) \<and> - 1000 < z \<and> z < 0"
proof -
  define x where "x = ln (1 / v) / ln (10001 / 10000)"
  have v: "0 < v" using assms(2) by simp
  have lo: "- 999 \<le> x"
    using raw_tick_above_one(1) [OF assms(2)] assms(3) by (simp add: x_def)
  have hi: "x \<le> - 1"
    using raw_tick_above_one(2) [OF assms(2)] assms(4) by (simp add: x_def)
  have "- 1000 < \<lfloor>x + 1 / 2\<rfloor>" using lo by linarith
  moreover have "\<lfloor>x + 1 / 2\<rfloor> < 0" using hi by linarith
  ultimately show ?thesis
    using getTickFromPrice_equal_decimals [OF assms(1) v] unfolding x_def by blast
qed

lemma candle_ticks_straddle:
  assumes "token0Decimals p = token1Decimals p"
  shows "getTickFromPrice p (Fin (6 / 5)) < Fin (- 1000)"
    and "Fin 0 < getTickFromPrice p (Fin (9 / 10))"
proof -
  define x :: real where "x = ln (1 / (6 / 5)) / ln (10001 / 10000)"
  define y :: real where "y = ln (1 / (9 / 10)) / ln (10001 / 10000)"
  have "x \<le> - ((1 - 1 / (6 / 5)) * 10000)"
    unfolding x_def by (rule raw_tick_above_one(2)) simp
  then have "x + 1 / 2 < - 1000" by simp
  then have lt: "real_of_int \<lfloor>x + 1 / 2\<rfloor> < - 1000" by linarith
  have tx: "getTickFromPrice p (Fin (6 / 5)) = Fin (of_int \<lfloor>x + 1 / 2\<rfloor>)"
    unfolding x_def by (rule getTickFromPrice_equal_decimals [OF assms]) simp
  show "getTickFromPrice p (Fin (6 / 5)) < Fin (- 1000)"
    by (simp only: tx less_jsnum.simps lt)
  have "(1 - 9 / 10) * 10000 \<le> y"
    unfolding y_def by (rule raw_tick_below_one) simp_all
  then have "1 \<le> y + 1 / 2" by simp
  then have gt: "0 < real_of_int \<lfloor>y + 1 / 2\<rfloor>" by linarith
  have ty: "getTickFromPrice p (Fin (9 / 10)) = Fin (of_int \<lfloor>y + 1 / 2\<rfloor>)"
    unfolding y_def by (rule getTickFromPrice_equal_decimals [OF assms]) simp
  show "Fin 0 < getTickFromPrice p (Fin (9 / 10))"
    by (simp only: ty less_jsnum.simps gt)
qed

lemma inverted_tick_range:
  assumes "token0Decimals p = token1Decimals p" and "currentToken0Price p = Fin (21 / 20)"
  shows "tickLower (getPositionTickRange p t (Percent (Fin 2)) (Fin (- 1000))) = Fin 0"
    and "tickUpper (getPositionTickRange p t (Percent (Fin 2)) (Fin (- 1000))) = Fin (- 1000)"
proof -
  have pl: "Fin (21 / 20) * (Fin 1 - Fin 2 / Fin 100 / Fin 2) = Fin (2079 / 2000)"
    and pu: "Fin (21 / 20) * (Fin 1 + Fin 2 / Fin 100 / Fin 2) = Fin (2121 / 2000)"
    by simp_all
  obtain a :: int where a: "getTickFromPrice p (Fin (2079 / 2000)) = Fin (of_int a)"
      "- 1000 < a" "a < 0"
    using raw_tick_in_bucket [OF assms(1), of "2079 / 2000"] by auto
  obtain b :: int where b: "getTickFromPrice p (Fin (2121 / 2000)) = Fin (of_int b)"
      "- 1000 < b" "b < 0"
    using raw_tick_in_bucket [OF assms(1), of "2121 / 2000"] by auto
  note ba = negative_spacing_bucket [OF a(2,3)]
  note bb = negative_spacing_bucket [OF b(2,3)]
  show "tickLower (getPositionTickRange p t (Percent (Fin 2)) (Fin (- 1000))) = Fin 0"
    unfolding getPositionTickRange_def Let_def assms(2)
    by (simp only: PositionType.case pl pu a(1) b(1) ba bb PositionRange.select_convs) simp
  show "tickUpper (getPositionTickRange p t (Percent (Fin 2)) (Fin (- 1000))) = Fin (- 1000)"
    unfolding getPositionTickRange_def Let_def assms(2)
    by (simp only: PositionType.case pl pu a(1) b(1) ba bb PositionRange.select_convs) simp
qed

lemma invertedRangePosition_fields:
  "tickLower (positionRange invertedRangePosition) = Fin 0"
  "tickUpper (positionRange invertedRangePosition) = Fin (- 1000)"
  "positionType invertedRangePosition = Percent (Fin 2)"
  "token0Decimals invertedRangePosition = token1Decimals invertedRangePosition"
proof -
  show "tickLower (positionRange invertedRangePosition) = Fin 0"
    unfolding invertedRangePosition_def constructor_def Let_def calculateTokensAndLiquidity_frame
    by (simp add: inverted_tick_range)
  show "tickUpper (positionRange invertedRangePosition) = Fin (- 1000)"
    unfolding invertedRangePosition_def constructor_def Let_def calculateTokensAndLiquidity_frame
    by (simp add: inverted_tick_range)
  show "positionType invertedRangePosition = Percent (Fin 2)"
    "token0Decimals invertedRangePosition = token1Decimals invertedRangePosition"
    by (simp_all add: invertedRangePosition_def constructor_def Let_def
          calculateTokensAndLiquidity_frame)
qed

theorem activeLiquidity_fraction_witness:
  "positionType examplePosition = FullRange \<and>
   calculateActiveLiquidityForCandle examplePosition (exampleDay (Fin 0) 5 7) = Fin 100 \<and>
   positionType exampleRangePosition \<noteq> FullRange \<and>
   \<not> isFinite NaN \<and>
   calculateActiveLiquidityForCandle exampleRangePosition
     ((exampleDay (Fin 0) 5 7)\<lparr>low := Some NaN\<rparr>) = Fin 0 \<and>
   Math_max (getTickFromPrice exampleRangePosition (Fin 1))
            (getTickFromPrice exampleRangePosition (Fin 1))
     < tickLower (positionRange exampleRangePosition) \<and>
   \<not> tickUpper (positionRange exampleRangePosition)
       < tickLower (positionRange exampleRangePosition) \<and>
   calculateActiveLiquidityForCandle exampleRangePosition (exampleDay (Fin 0) 5 7) = Fin 0 \<and>
   Fin 0 \<le> calculateActiveLiquidityForCandle exampleRangePosition (exampleDay (Fin 0) 5 7) \<and>
   calculateActiveLiquidityForCandle exampleRangePosition (exampleDay (Fin 0) 5 7) \<le> Fin 100 \<and>
   positionType invertedRangePosition \<noteq> FullRange \<and>
   isFinite (Fin (6 / 5)) \<and> isFinite (Fin (9 / 10)) \<and>
   \<not> Fin (6 / 5) \<le> Fin 0 \<and> \<not> Fin (9 / 10) \<le> Fin 0 \<and>
   tickUpper (positionRange invertedRangePosition)
     < tickLower (positionRange invertedRangePosition) \<and>
   getTickFromPrice invertedRangePosition (Fin (6 / 5))
     < tickUpper (positionRange invertedRangePosition) \<and>
   tickLower (positionRange invertedRangePosition)
     < getTickFromPrice invertedRangePosition (Fin (9 / 10)) \<and>
   calculateActiveLiquidityForCandle invertedRangePosition invertedCandle < Fin 0"
proof -
  have t: "getTickFromPrice exampleRangePosition (Fin 1) = Fin 0"
    by (rule getTickFromPrice_one) (simp add: exampleRangePosition_fields)
  have d1: "Fin 1 = (case low (exampleDay (Fin 0) 5 7) of Some v \<Rightarrow> v
                     | None \<Rightarrow> token0Price (exampleDay (Fin 0) 5 7))"
    and d2: "Fin 1 = (case high (exampleDay (Fin 0) 5 7) of Some v \<Rightarrow> v
                     | None \<Rightarrow> token0Price (exampleDay (Fin 0) 5 7))"
    by (simp_all add: exampleDay_def)
  have n1: "NaN = (case low ((exampleDay (Fin 0) 5 7)\<lparr>low := Some NaN\<rparr>) of Some v \<Rightarrow> v
                     | None \<Rightarrow> token0Price ((exampleDay (Fin 0) 5 7)\<lparr>low := Some NaN\<rparr>))"
    and n2: "Fin 1 = (case high ((exampleDay (Fin 0) 5 7)\<lparr>low := Some NaN\<rparr>) of Some v \<Rightarrow> v
                     | None \<Rightarrow> token0Price ((exampleDay (Fin 0) 5 7)\<lparr>low := Some NaN\<rparr>))"
    by (simp_all add: exampleDay_def)
  have lp: "Fin (6 / 5) = (case low invertedCandle of Some v \<Rightarrow> v
                           | None \<Rightarrow> token0Price invertedCandle)"
    and hp: "Fin (9 / 10) = (case high invertedCandle of Some v \<Rightarrow> v
                             | None \<Rightarrow> token0Price invertedCandle)"
    by (simp_all add: invertedCandle_def)
  note s = candle_ticks_straddle [OF invertedRangePosition_fields(4)]
  have a: "positionType examplePosition = FullRange \<and>
     calculateActiveLiquidityForCandle examplePosition (exampleDay (Fin 0) 5 7) = Fin 100"
    using activeLiquidity_fraction [OF d1 d2, of examplePosition]
    by (simp add: examplePosition_fresh)
  have b: "positionType exampleRangePosition \<noteq> FullRange \<and>
     \<not> isFinite NaN \<and>
     calculateActiveLiquidityForCandle exampleRangePosition
       ((exampleDay (Fin 0) 5 7)\<lparr>low := Some NaN\<rparr>) = Fin 0"
    using activeLiquidity_fraction [OF n1 n2, of exampleRangePosition]
    by (simp add: exampleRangePosition_fields)
  have c: "Math_max (getTickFromPrice exampleRangePosition (Fin 1))
              (getTickFromPrice exampleRangePosition (Fin 1))
       < tickLower (positionRange exampleRangePosition) \<and>
     \<not> tickUpper (positionRange exampleRangePosition)
         < tickLower (positionRange exampleRangePosition) \<and>
     calculateActiveLiquidityForCandle exampleRangePosition (exampleDay (Fin 0) 5 7) = Fin 0 \<and>
     Fin 0 \<le> calculateActiveLiquidityForCandle exampleRangePosition (exampleDay (Fin 0) 5 7) \<and>
     calculateActiveLiquidityForCandle exampleRangePosition (exampleDay (Fin 0) 5 7) \<le> Fin 100"
    using activeLiquidity_fraction [OF d1 d2, of exampleRangePosition]
    by (simp add: t exampleRangePosition_fields)
  have d: "calculateActiveLiquidityForCandle invertedRangePosition invertedCandle < Fin 0"
    using activeLiquidity_fraction [OF lp hp, of invertedRangePosition] s
    by (simp add: invertedRangePosition_fields)
  show ?thesis
    using a b c d s by (simp add: invertedRangePosition_fields)
qed

text \<open>
  C4 as the specification states it, in all cases, fails. A position of type \<^verbatim>\<open>'2%'\<close>
  constructed at the price \<open>1.05\<close> with the tick spacing \<open>-1000\<close> has the range
  \<open>tickLower = 0\<close>, \<open>tickUpper = -1000\<close>: both raw ticks lie strictly between \<open>-1000\<close>
  and 0, and with a negative spacing \<^verbatim>\<open>Math.floor(raw / spacing) * spacing\<close> is the
  larger multiple. For a day with the low price \<open>1.2\<close>, whose tick is below \<open>-1000\<close>,
  and the high price \<open>0.9\<close>, whose tick is above 0, the fraction is
  \<open>(-1000 - 0) / (highTick - lowTick) * 100\<close>, a negative number.
\<close>

theorem activeLiquidity_fraction_counterexample:
  "tickLower (positionRange invertedRangePosition) = Fin 0 \<and>
   tickUpper (positionRange invertedRangePosition) = Fin (- 1000) \<and>
   calculateActiveLiquidityForCandle invertedRangePosition invertedCandle < Fin 0 \<and>
   \<not> (Fin 0 \<le> calculateActiveLiquidityForCandle invertedRangePosition invertedCandle \<and>
      calculateActiveLiquidityForCandle invertedRangePosition invertedCandle \<le> Fin 100)"
proof -
  have lp: "Fin (6 / 5) = (case low invertedCandle of Some v \<Rightarrow> v
                           | None \<Rightarrow> token0Price invertedCandle)"
    and hp: "Fin (9 / 10) = (case high invertedCandle of Some v \<Rightarrow> v
                             | None \<Rightarrow> token0Price invertedCandle)"
    by (simp_all add: invertedCandle_def)
  have nf: "positionType invertedRangePosition \<noteq> FullRange"
    by (simp add: invertedRangePosition_fields)
  have ok: "\<not> (\<not> isFinite (Fin (6 / 5)) \<or> \<not> isFinite (Fin (9 / 10)) \<or>
               Fin (6 / 5) \<le> Fin 0 \<or> Fin (9 / 10) \<le> Fin 0)"
    by simp
  note s = candle_ticks_straddle [OF invertedRangePosition_fields(4)]
  have neg: "calculateActiveLiquidityForCandle invertedRangePosition invertedCandle < Fin 0"
    using activeLiquidity_candle [OF lp hp nf ok] s
    by (simp add: invertedRangePosition_fields)
  then have "\<not> Fin 0 \<le> calculateActiveLiquidityForCandle invertedRangePosition invertedCandle"
    by (cases "calculateActiveLiquidityForCandle invertedRangePosition invertedCandle") auto
  with neg show ?thesis
    by (simp add: invertedRangePosition_fields)
qed

section \<open>Weighted and running APR without a rebalance\<close>

lemma two_updates_example:
  defines "s1 \<equiv> snd (update examplePosition (exampleDay (Fin 0) 0 0) False)"
  defines "s2 \<equiv> snd (update s1 (exampleDay (Fin 0) halfQ128 0) False)"
  shows "totalDataPoints s2 = 2"
    and "currentPositionDataPoints s2 = 2"
    and "positionResults s2 = []"
    and "rebalanceCount s2 = 0"
    and "totalGasCosts s2 = Fin 0"
    and "initialAmount s2 = Fin 900"
    and "currentPositionCapital s2 = Fin 900"
    and "granularityType s2 = Daily"
    and "cumulativeFees s2 = Fin 250"
    and "currentPositionFees s2 = Fin 250"
proof -
  have in0: "\<not> isOutOfRange examplePosition (tick (exampleDay (Fin 0) g0 g1))" for g0 g1
    by (simp add: isOutOfRange_def isPositionActive_def examplePosition_range exampleDay_def)
  have g: "feeGrowthGlobal0X128 (exampleDay (Fin 0) g0 g1) = Some g0"
    "feeGrowthGlobal1X128 (exampleDay (Fin 0) g0 g1) = Some g1"
    "token0Price (exampleDay (Fin 0) g0 g1) = Fin 1" for g0 g1
    by (simp_all add: exampleDay_def)
  have f1: "fst (update examplePosition (exampleDay (Fin 0) 0 0) False) = Fin 0"
    by (rule update_first) (simp add: examplePosition_fresh)
  have prev: "previousFeeGrowth0X128 s1 = 0" "previousFeeGrowth1X128 s1 = 0"
    unfolding s1_def
    using update_first_seed [OF examplePosition_fresh(1) in0 _ g(1,2), of False 0 0]
    by simp_all
  have s1: "totalDataPoints s1 = 1" "currentPositionDataPoints s1 = 1"
    "positionResults s1 = []" "rebalanceCount s1 = 0" "totalGasCosts s1 = Fin 0"
    "initialAmount s1 = Fin 900" "currentPositionCapital s1 = Fin 900"
    "granularityType s1 = Daily" "cumulativeFees s1 = Fin 0" "currentPositionFees s1 = Fin 0"
    "liquidityAmount s1 = Fin 500000000" "token0Decimals s1 = 6" "token1Decimals s1 = 6"
    "positionType s1 = FullRange" "positionRange s1 = positionRange examplePosition"
    unfolding s1_def
    by (simp_all add: update_counters update_frame update_fees f1 examplePosition_fresh
          examplePosition_liquidity examplePosition_market)
  have in1: "\<not> isOutOfRange s1 (tick (exampleDay (Fin 0) halfQ128 0))"
    by (simp add: isOutOfRange_def isPositionActive_def s1(15) examplePosition_range
          exampleDay_def)
  have act: "calculateActiveLiquidityForCandle s1 dp = Fin 100" for dp
    by (simp add: calculateActiveLiquidityForCandle_def s1(14))
  have f2: "fst (update s1 (exampleDay (Fin 0) halfQ128 0) False) = Fin 250"
    using update_fee_in_range [OF in1 _ g(1,2), of False]
    by (simp add: s1 prev act g(3) Math_pow_def halfQ128_def)
  show "totalDataPoints s2 = 2" "currentPositionDataPoints s2 = 2"
    "positionResults s2 = []" "rebalanceCount s2 = 0" "totalGasCosts s2 = Fin 0"
    "initialAmount s2 = Fin 900" "currentPositionCapital s2 = Fin 900"
    "granularityType s2 = Daily" "cumulativeFees s2 = Fin 250" "currentPositionFees s2 = Fin 250"
    unfolding s2_def
    by (simp_all add: update_counters update_frame update_fees f2 s1)
qed

text \<open>
  C2 at a position that has never been rebalanced: the example position (900 USD,
  full range, daily data) after two days, the first with both fee-growth accumulators
  at 0, the second with the token0 accumulator at \<open>2 ^ 127\<close>, which earns fees of 250.
  There is no completed sub-position and the rebalance count is 0; the running APR is
  \<open>250 / 900 * (365 / 2) * 100 = 45625 / 9\<close>, and the weighted APR is
  \<open>250 / 650 * (365 / 2) * 100 = 91250 / 13\<close>: for the open sub-position
  \<open>getWeightedPositionAPR\<close> takes \<open>currentPositionCapital - currentPositionFees\<close>, that
  is \<open>900 - 250\<close>, as the starting capital, although \<open>currentPositionCapital\<close> does not
  contain the fees of the open sub-position (\<open>rebalance\<close> adds them when it closes it).
\<close>

theorem weighted_APR_differs_from_running_APR:
  "rebalanceCount
     (snd (update (snd (update examplePosition (exampleDay (Fin 0) 0 0) False))
             (exampleDay (Fin 0) halfQ128 0) False)) = 0 \<and>
   getRunningAPR
     (snd (update (snd (update examplePosition (exampleDay (Fin 0) 0 0) False))
             (exampleDay (Fin 0) halfQ128 0) False)) = Fin (45625 / 9) \<and>
   getWeightedPositionAPR
     (snd (update (snd (update examplePosition (exampleDay (Fin 0) 0 0) False))
             (exampleDay (Fin 0) halfQ128 0) False)) = Fin (91250 / 13) \<and>
   getWeightedPositionAPR
     (snd (update (snd (update examplePosition (exampleDay (Fin 0) 0 0) False))
             (exampleDay (Fin 0) halfQ128 0) False)) \<noteq>
   getRunningAPR
     (snd (update (snd (update examplePosition (exampleDay (Fin 0) 0 0) False))
             (exampleDay (Fin 0) halfQ128 0) False))"
  by (simp add: getRunningAPR_def getWeightedPositionAPR_def Let_def two_updates_example)

end
